theory Spec2Isabelle
  imports
    Complex_Main
    "HOL-Library.AList"
    "HOL-Library.Char_ord"
    "HOL-Library.List_Lexorder"
    "HOL-Library.Product_Lexorder"
begin

section \<open>JavaScript values\<close>

text \<open>
  The feed documents, the enclosures and the decoded cursors of KeelCast are values of
  type \<open>any\<close>.  They are modelled by one datatype of JavaScript values.  Strings are
  Isabelle strings, one \<open>char\<close> for each code unit; the model is exact on ASCII text,
  which is what every literal of the source is.  Numbers are exact rationals, with \<open>NaN\<close>
  and the two infinities; the rounding of IEEE doubles beyond \<open>2^53\<close> is not modelled.
\<close>

datatype jsnum = Num rat | NaN | PosInf | NegInf

datatype jsval =
    JUndefined
  | JNull
  | JBool bool
  | JNum jsnum
  | JStr string
  | JArr "jsval list"
  | JObj "(string \<times> jsval) list"

text \<open>What \<open>if (v)\<close>, \<open>!v\<close>, \<open>a || b\<close> and \<open>a && b\<close> test.\<close>

fun truthy :: "jsval \<Rightarrow> bool" where
  "truthy JUndefined = False"
| "truthy JNull = False"
| "truthy (JBool b) = b"
| "truthy (JNum n) = (n \<noteq> NaN \<and> n \<noteq> Num 0)"
| "truthy (JStr s) = (s \<noteq> [])"
| "truthy (JArr xs) = True"
| "truthy (JObj kvs) = True"

text \<open>
  \<open>v?.[k]\<close>: the property \<open>k\<close> of \<open>v\<close>, \<open>undefined\<close> when \<open>v\<close> is not an object or has no
  such property.  Of the keys the source probes, the only one that a primitive or an array
  inherits is \<open>String.prototype.link\<close>; the source reads it only under a
  \<open>typeof ... === 'string'\<close> guard, which discards the function it finds there.
\<close>

fun getProp :: "jsval \<Rightarrow> string \<Rightarrow> jsval" where
  "getProp (JObj kvs) k = (case map_of kvs k of Some v \<Rightarrow> v | None \<Rightarrow> JUndefined)"
| "getProp v k = JUndefined"

definition jsor :: "jsval \<Rightarrow> jsval \<Rightarrow> jsval" where
  "jsor a b = (if truthy a then a else b)"

definition jsand :: "jsval \<Rightarrow> jsval \<Rightarrow> jsval" where
  "jsand a b = (if truthy a then b else a)"

definition nullish :: "jsval \<Rightarrow> jsval \<Rightarrow> jsval" where
  "nullish a b = (if a = JUndefined \<or> a = JNull then b else a)"

text \<open>\<open>typeof v === 'object'\<close> for a truthy \<open>v\<close>.\<close>

fun isObjectType :: "jsval \<Rightarrow> bool" where
  "isObjectType (JArr xs) = True"
| "isObjectType (JObj kvs) = True"
| "isObjectType v = False"

section \<open>Strings\<close>

definition lowerChar :: "char \<Rightarrow> char" where
  "lowerChar c =
     (if CHR ''A'' \<le> c \<and> c \<le> CHR ''Z'' then char_of (of_char c + (32::nat)) else c)"

definition toLowerCase :: "string \<Rightarrow> string" where
  "toLowerCase s = map lowerChar s"

definition startsWith :: "string \<Rightarrow> string \<Rightarrow> bool" where
  "startsWith s p = (take (length p) s = p)"

fun strIncludes :: "string \<Rightarrow> string \<Rightarrow> bool" where
  "strIncludes [] p = (p = [])"
| "strIncludes (c # cs) p = (startsWith (c # cs) p \<or> strIncludes cs p)"

section \<open>Exceptions\<close>

text \<open>
  A thrown value: an \<open>Error\<close> with its message, a \<open>TypeError\<close>, Zod's \<open>ZodError\<close>, a
  \<open>DOMException\<close> with its name and message (the \<open>TimeoutError\<close> of an aborted fetch), or
  a value that is not an \<open>Error\<close> at all.
\<close>

datatype jserror =
    Error string
  | TypeError string
  | ZodError string
  | DOMException string string
  | NonError

fun instanceofError :: "jserror \<Rightarrow> bool" where
  "instanceofError NonError = False"
| "instanceofError e = True"

fun errorName :: "jserror \<Rightarrow> string" where
  "errorName (Error m) = ''Error''"
| "errorName (TypeError m) = ''TypeError''"
| "errorName (ZodError m) = ''ZodError''"
| "errorName (DOMException n m) = n"
| "errorName NonError = []"

fun errorMessage :: "jserror \<Rightarrow> string" where
  "errorMessage (Error m) = m"
| "errorMessage (TypeError m) = m"
| "errorMessage (ZodError m) = m"
| "errorMessage (DOMException n m) = m"
| "errorMessage NonError = []"

section \<open>The audio URL extractor\<close>

text \<open>\<open>isMp3Url\<close>, \<open>isAudioUrl\<close> and \<open>isAudioType\<close> of \<open>extractFromEnclosure\<close>.\<close>

definition isMp3Url :: "string \<Rightarrow> bool" where
  "isMp3Url url =
     (let lowerUrl = toLowerCase url in
      strIncludes lowerUrl ''.mp3'' \<or> strIncludes lowerUrl ''audio/mpeg'' \<or>
      strIncludes lowerUrl ''audio/mp3'')"

definition isAudioUrl :: "string \<Rightarrow> bool" where
  "isAudioUrl url =
     (let lowerUrl = toLowerCase url in
      strIncludes lowerUrl ''.mp3'' \<or> strIncludes lowerUrl ''.m4a'' \<or>
      strIncludes lowerUrl ''.wav'' \<or> strIncludes lowerUrl ''.ogg'' \<or>
      strIncludes lowerUrl ''.aac'' \<or> strIncludes lowerUrl ''audio/mpeg'' \<or>
      strIncludes lowerUrl ''audio/mp3'' \<or> strIncludes lowerUrl ''audio/mp4'' \<or>
      strIncludes lowerUrl ''audio/wav'' \<or> strIncludes lowerUrl ''audio/ogg'' \<or>
      strIncludes lowerUrl ''audio/aac'')"

definition isAudioType :: "jsval \<Rightarrow> bool" where
  "isAudioType enc =
     (case jsor (jsor (getProp enc ''type'') (getProp (getProp enc ''$'') ''type''))
                (getProp (getProp enc ''attributes'') ''type'') of
        JStr t \<Rightarrow> strIncludes (toLowerCase t) ''audio''
      | _ \<Rightarrow> False)"

definition possibleUrlKeys :: "string list" where
  "possibleUrlKeys = [''url'', ''href'', ''link'', ''src'']"

text \<open>
  The loop \<open>for (const key of possibleUrlKeys) if (o[key] && typeof o[key] === 'string')
  return o[key]\<close>; \<open>None\<close> when the loop ends without returning.
\<close>

fun firstStringProp :: "jsval \<Rightarrow> string list \<Rightarrow> string option" where
  "firstStringProp obj [] = None"
| "firstStringProp obj (k # ks) =
     (case getProp obj k of
        JStr s \<Rightarrow> if s \<noteq> [] then Some s else firstStringProp obj ks
      | _ \<Rightarrow> firstStringProp obj ks)"

text \<open>
  \<open>getUrlFromEnclosure\<close>.  Its declared result is \<open>string | null\<close>, but it returns
  \<open>enc.url\<close> (and the like) whatever that value is, so the result is a JavaScript value.
\<close>

definition getUrlFromEnclosure :: "jsval \<Rightarrow> jsval" where
  "getUrlFromEnclosure enc =
     (case enc of
        JStr s \<Rightarrow> enc
      | _ \<Rightarrow>
        if truthy (getProp enc ''url'') then getProp enc ''url''
        else if truthy (getProp (getProp enc ''$'') ''url'') then getProp (getProp enc ''$'') ''url''
        else if truthy (getProp enc ''href'') then getProp enc ''href''
        else if truthy (getProp enc ''link'') then getProp enc ''link''
        else if truthy enc \<and> isObjectType enc then
          (case firstStringProp enc possibleUrlKeys of
             Some u \<Rightarrow> JStr u
           | None \<Rightarrow>
             if truthy (getProp enc ''attributes'') then
               (case firstStringProp (getProp enc ''attributes'') possibleUrlKeys of
                  Some u \<Rightarrow> JStr u
                | None \<Rightarrow> JNull)
             else JNull)
        else JNull)"

text \<open>
  \<open>isMp3Url(url)\<close> and \<open>isAudioUrl(url)\<close> call \<open>url.toLowerCase()\<close>.  On a truthy
  value that is not a string this throws a \<open>TypeError\<close> (the message is V8's).
\<close>

definition notAFunction :: jserror where
  "notAFunction = TypeError ''url.toLowerCase is not a function''"

text \<open>
  The two passes over an array of enclosures.  \<open>Inr None\<close>: the loop ended without
  returning.
\<close>

fun firstPass :: "jsval list \<Rightarrow> jserror + string option" where
  "firstPass [] = Inr None"
| "firstPass (enc # rest) =
     (let url = getUrlFromEnclosure enc in
      if truthy url then
        (case url of
           JStr u \<Rightarrow> if isMp3Url u then Inr (Some u) else firstPass rest
         | _ \<Rightarrow> Inl notAFunction)
      else firstPass rest)"

fun secondPass :: "jsval list \<Rightarrow> jserror + string option" where
  "secondPass [] = Inr None"
| "secondPass (enc # rest) =
     (let url = getUrlFromEnclosure enc in
      if truthy url then
        (case url of
           JStr u \<Rightarrow> if isAudioUrl u \<or> isAudioType enc then Inr (Some u) else secondPass rest
         | _ \<Rightarrow> Inl notAFunction)
      else secondPass rest)"

definition extractFromEnclosure :: "jsval \<Rightarrow> jserror + string option" where
  "extractFromEnclosure enclosure =
     (case enclosure of
        JArr encs \<Rightarrow>
          (case firstPass encs of
             Inl e \<Rightarrow> Inl e
           | Inr (Some u) \<Rightarrow> Inr (Some u)
           | Inr None \<Rightarrow> secondPass encs)
      | _ \<Rightarrow>
          (let url = getUrlFromEnclosure enclosure in
           if truthy url then
             (case url of
                JStr u \<Rightarrow> if isMp3Url u \<or> isAudioUrl u then Inr (Some u) else Inr None
              | _ \<Rightarrow> Inl notAFunction)
           else Inr None))"

text \<open>
  One step of \<open>extractAudioUrlFromItem\<close>: \<open>if (shape) { const u =
  extractFromEnclosure(shape); if (u) return u; }\<close>, followed by the rest of the function.
\<close>

definition tryShape ::
  "jsval \<Rightarrow> (jserror + string option) \<Rightarrow> jserror + string option" where
  "tryShape shape rest =
     (if truthy shape then
        (case extractFromEnclosure shape of
           Inl e \<Rightarrow> Inl e
         | Inr (Some u) \<Rightarrow> if u \<noteq> [] then Inr (Some u) else rest
         | Inr None \<Rightarrow> rest)
      else rest)"

definition extractAudioUrlFromItem :: "jsval \<Rightarrow> jserror + string option" where
  "extractAudioUrlFromItem item =
     (let enclosure =
            nullish (jsand item (nullish (getProp item ''enclosure'') (getProp item ''enclosures'')))
                    JNull;
          mediaContent = nullish (getProp item ''media:content'') (getProp item ''mediaContent'');
          mediaGroup = nullish (getProp item ''media:group'') (getProp item ''mediaGroup'');
          groupContent = nullish (getProp mediaGroup ''content'') (getProp mediaGroup ''contents'')
      in tryShape enclosure
           (tryShape mediaContent
              (if truthy mediaGroup then tryShape groupContent (Inr None) else Inr None)))"

section \<open>Numbers in strings\<close>

definition isDigit :: "char \<Rightarrow> bool" where
  "isDigit c = (CHR ''0'' \<le> c \<and> c \<le> CHR ''9'')"

definition digitVal :: "char \<Rightarrow> nat" where
  "digitVal c = of_char c - 48"

definition digitChar :: "nat \<Rightarrow> char" where
  "digitChar n = char_of (48 + n)"

definition decimalValue :: "string \<Rightarrow> nat" where
  "decimalValue s = foldl (\<lambda>n c. 10 * n + digitVal c) 0 s"

text \<open>The decimal numeral of a natural number, as a template literal prints it.\<close>

fun showNat :: "nat \<Rightarrow> string" where
  "showNat n = (if n < 10 then [digitChar n] else showNat (n div 10) @ [digitChar (n mod 10)])"

declare showNat.simps [simp del]

text \<open>
  White space as \<open>trim\<close>, \<open>parseInt\<close> and \<open>Number\<close> skip it: tab, line feed, vertical tab,
  form feed, carriage return, space and the no-break space.
\<close>

definition isWhiteSpace :: "char \<Rightarrow> bool" where
  "isWhiteSpace c =
     (c = CHR 0x09 \<or> c = CHR 0x0A \<or> c = CHR 0x0B \<or> c = CHR 0x0C \<or> c = CHR 0x0D \<or>
      c = CHR 0x20 \<or> c = CHR 0xA0)"

definition trim :: "string \<Rightarrow> string" where
  "trim s = rev (dropWhile isWhiteSpace (rev (dropWhile isWhiteSpace s)))"

text \<open>
  \<open>parseInt(s, 10)\<close>: leading white space, an optional sign, then the longest run of
  decimal digits; what follows the digits is ignored.  \<open>None\<close> is \<open>NaN\<close> (no digit).
\<close>

definition parseInt10 :: "string \<Rightarrow> int option" where
  "parseInt10 s =
     (let t = dropWhile isWhiteSpace s;
          neg = (t \<noteq> [] \<and> hd t = CHR ''-'');
          r = (if t \<noteq> [] \<and> (hd t = CHR ''-'' \<or> hd t = CHR ''+'') then tl t else t);
          ds = takeWhile isDigit r
      in if ds = [] then None
         else Some (if neg then - int (decimalValue ds) else int (decimalValue ds)))"

text \<open>
  \<open>Number(s)\<close>.  The empty string is \<open>0\<close> and a string of decimal digits is its value.
  Every other string (a sign, a fraction, an exponent, a hexadecimal literal, white space
  around the numeral, or no numeral at all, which gives \<open>NaN\<close>) is left to the parameter
  \<open>other\<close>, so that what is proved holds whatever \<open>Number\<close> returns there.
\<close>

definition toNumber :: "(string \<Rightarrow> jsnum) \<Rightarrow> string \<Rightarrow> jsnum" where
  "toNumber other s =
     (if s = [] then Num 0
      else if list_all isDigit s then Num (of_nat (decimalValue s))
      else other s)"

text \<open>\<open>a + b\<close> and \<open>a * b\<close> on numbers.\<close>

fun jsadd :: "jsnum \<Rightarrow> jsnum \<Rightarrow> jsnum" where
  "jsadd (Num a) (Num b) = Num (a + b)"
| "jsadd NaN b = NaN"
| "jsadd a NaN = NaN"
| "jsadd PosInf NegInf = NaN"
| "jsadd NegInf PosInf = NaN"
| "jsadd PosInf b = PosInf"
| "jsadd a PosInf = PosInf"
| "jsadd NegInf b = NegInf"
| "jsadd a NegInf = NegInf"

definition infinity :: "bool \<Rightarrow> jsnum" where
  "infinity positive = (if positive then PosInf else NegInf)"

fun jsmul :: "jsnum \<Rightarrow> jsnum \<Rightarrow> jsnum" where
  "jsmul (Num a) (Num b) = Num (a * b)"
| "jsmul NaN b = NaN"
| "jsmul a NaN = NaN"
| "jsmul PosInf (Num b) = (if b = 0 then NaN else infinity (0 < b))"
| "jsmul NegInf (Num b) = (if b = 0 then NaN else infinity (b < 0))"
| "jsmul (Num a) PosInf = (if a = 0 then NaN else infinity (0 < a))"
| "jsmul (Num a) NegInf = (if a = 0 then NaN else infinity (a < 0))"
| "jsmul PosInf PosInf = PosInf"
| "jsmul NegInf NegInf = PosInf"
| "jsmul PosInf NegInf = NegInf"
| "jsmul NegInf PosInf = NegInf"

text \<open>\<open>s.split(d)\<close> for a one-character separator.\<close>

fun splitOn :: "char \<Rightarrow> string \<Rightarrow> string list" where
  "splitOn d [] = [[]]"
| "splitOn d (c # cs) =
     (if c = d then [] # splitOn d cs
      else (case splitOn d cs of
              p # ps \<Rightarrow> (c # p) # ps
            | [] \<Rightarrow> [[c]]))"

section \<open>The item schema\<close>

text \<open>
  \<open>ValidatedRSSItem\<close>, the type that \<open>RSSItemSchema\<close> infers.  The field \<open>title\<close> of the
  source is \<open>itemTitle\<close> here and \<open>itunes:duration\<close> is \<open>itunesDuration\<close>.  A duration is a
  string, a number or \<open>undefined\<close>, and the enclosure is \<open>any\<close>: both are JavaScript values.
\<close>

record ValidatedRSSItem =
  itemTitle :: string
  link :: string
  contentSnippet :: "string option"
  content :: "string option"
  pubDate :: "string option"
  duration :: jsval
  itunesDuration :: jsval
  enclosure :: jsval

text \<open>
  The schema follows Zod: an object schema accepts a plain object, checks the declared
  keys and drops every other key; a union yields the result of its first member that
  accepts the value.  \<open>isUrl\<close> is the check behind \<open>z.string().url()\<close>.  A \<open>ZodError\<close>
  carries the message of the first issue (its real message lists them all; the source
  never reads it).
\<close>

definition zodOptionalString :: "jsval \<Rightarrow> bool" where
  "zodOptionalString v = (case v of JUndefined \<Rightarrow> True | JStr s \<Rightarrow> True | _ \<Rightarrow> False)"

definition zodOptionalStringOrNumber :: "jsval \<Rightarrow> bool" where
  "zodOptionalStringOrNumber v =
     (case v of JUndefined \<Rightarrow> True | JStr s \<Rightarrow> True | JNum n \<Rightarrow> n \<noteq> NaN | _ \<Rightarrow> False)"

definition stringOption :: "jsval \<Rightarrow> string option" where
  "stringOption v = (case v of JStr s \<Rightarrow> Some s | _ \<Rightarrow> None)"

definition keepKeys :: "jsval \<Rightarrow> string list \<Rightarrow> jsval" where
  "keepKeys obj ks = JObj [(k, getProp obj k). k \<leftarrow> ks, getProp obj k \<noteq> JUndefined]"

definition enclosureAttributes :: "(string \<Rightarrow> bool) \<Rightarrow> jsval \<Rightarrow> jsval option" where
  "enclosureAttributes isUrl v =
     (case v of
        JObj kvs \<Rightarrow>
          (case getProp v ''url'' of
             JStr u \<Rightarrow>
               if isUrl u \<and> zodOptionalString (getProp v ''type'') \<and>
                  zodOptionalStringOrNumber (getProp v ''length'')
               then Some (keepKeys v [''url'', ''type'', ''length''])
               else None
           | _ \<Rightarrow> None)
      | _ \<Rightarrow> None)"

definition RSSEnclosureSchema :: "(string \<Rightarrow> bool) \<Rightarrow> jsval \<Rightarrow> jsval option" where
  "RSSEnclosureSchema isUrl v =
     (case enclosureAttributes isUrl v of
        Some r \<Rightarrow> Some r
      | None \<Rightarrow>
          (case v of
             JObj kvs \<Rightarrow>
               (case enclosureAttributes isUrl (getProp v ''$'') of
                  Some r \<Rightarrow> Some (JObj [(''$'', r)])
                | None \<Rightarrow> None)
           | _ \<Rightarrow> None))"

text \<open>
  \<open>z.union([RSSEnclosureSchema, z.array(RSSEnclosureSchema), z.any()])\<close>: the last member
  accepts every value as it is.
\<close>

definition enclosureUnion :: "(string \<Rightarrow> bool) \<Rightarrow> jsval \<Rightarrow> jsval" where
  "enclosureUnion isUrl v =
     (case RSSEnclosureSchema isUrl v of
        Some r \<Rightarrow> r
      | None \<Rightarrow>
          (case v of
             JArr xs \<Rightarrow>
               if list_all (\<lambda>x. RSSEnclosureSchema isUrl x \<noteq> None) xs
               then JArr (List.map_filter (RSSEnclosureSchema isUrl) xs)
               else v
           | _ \<Rightarrow> v))"

definition RSSItemSchema :: "(string \<Rightarrow> bool) \<Rightarrow> jsval \<Rightarrow> jserror + ValidatedRSSItem" where
  "RSSItemSchema isUrl item =
     (case item of
        JObj kvs \<Rightarrow>
          (case (getProp item ''title'', getProp item ''link'') of
             (JStr t, JStr l) \<Rightarrow>
               if t = [] then Inl (ZodError ''Episode title is required'')
               else if \<not> isUrl l then Inl (ZodError ''Episode link must be a valid URL'')
               else if \<not> zodOptionalString (getProp item ''contentSnippet'') \<or>
                       \<not> zodOptionalString (getProp item ''content'') \<or>
                       \<not> zodOptionalString (getProp item ''pubDate'')
               then Inl (ZodError ''Expected string'')
               else if \<not> zodOptionalStringOrNumber (getProp item ''duration'') \<or>
                       \<not> zodOptionalStringOrNumber (getProp item ''itunes:duration'')
               then Inl (ZodError ''Invalid input'')
               else if getProp item ''enclosure'' = JUndefined \<or>
                       getProp item ''enclosure'' = JNull
               then Inl (ZodError ''Episode must have an enclosure (audio file)'')
               else if \<not> truthy (getProp item ''contentSnippet'') \<and>
                       \<not> truthy (getProp item ''content'')
               then Inl (ZodError ''Episode must have either contentSnippet or content'')
               else Inr \<lparr> itemTitle = t, link = l,
                          contentSnippet = stringOption (getProp item ''contentSnippet''),
                          content = stringOption (getProp item ''content''),
                          pubDate = stringOption (getProp item ''pubDate''),
                          duration = getProp item ''duration'',
                          itunesDuration = getProp item ''itunes:duration'',
                          enclosure = enclosureUnion isUrl (getProp item ''enclosure'') \<rparr>
           | _ \<Rightarrow> Inl (ZodError ''Required''))
      | _ \<Rightarrow> Inl (ZodError ''Expected object''))"

text \<open>
  The validated item as the object that \<open>extractAudioUrlFromItem(item: any)\<close> probes: it
  has the keys of the schema and no other.
\<close>

definition optionalField :: "string \<Rightarrow> string option \<Rightarrow> (string \<times> jsval) list" where
  "optionalField k v = (case v of Some s \<Rightarrow> [(k, JStr s)] | None \<Rightarrow> [])"

definition itemObject :: "ValidatedRSSItem \<Rightarrow> jsval" where
  "itemObject item =
     JObj ([(''title'', JStr (itemTitle item)), (''link'', JStr (link item))] @
           optionalField ''contentSnippet'' (contentSnippet item) @
           optionalField ''content'' (content item) @
           optionalField ''pubDate'' (pubDate item) @
           [(''duration'', duration item), (''itunes:duration'', itunesDuration item),
            (''enclosure'', enclosure item)])"

section \<open>The world outside the program\<close>

text \<open>
  What the program gets from its platform and from the network is a parameter of the
  model: the answer of \<open>fetch\<close>, the outcome of \<open>parser.parseURL\<close>, whether \<open>new URL(s)\<close>
  succeeds, what \<open>new Date(s)\<close> parses, the clock, \<open>Number\<close> outside plain digit strings
  and the URL check of Zod.
\<close>

record response =
  ok :: bool
  status :: nat
  statusText :: string
  contentType :: "string option"
  body :: "jserror + string"

datatype parseOutcome = Parsed jsval | ParseRejected jserror | ParseHangs

record env =
  fetch :: "string \<Rightarrow> jserror + response"
  parseURL :: "string \<Rightarrow> parseOutcome"
  urlParses :: "string \<Rightarrow> bool"
  zodUrl :: "string \<Rightarrow> bool"
  dateParse :: "string \<Rightarrow> int option"
  now :: int
  numberOther :: "string \<Rightarrow> jsnum"

text \<open>The requests a call has sent, in order.\<close>

datatype request = Fetch string | ParseURL string

section \<open>The episode normalizer\<close>

text \<open>
  \<open>EpisodeInsert\<close>: an \<open>Episode\<close> without \<open>id\<close>, \<open>createdAt\<close> and \<open>updatedAt\<close>.  A time is
  its epoch milliseconds.  \<open>audioUrl\<close> is optional in the record because the persistence
  step tests it for \<open>null\<close>.
\<close>

record EpisodeInsert =
  podcastId :: string
  title :: string
  description :: "string option"
  url :: string
  audioUrl :: "string option"
  publishedAt :: int
  durationSeconds :: "jsnum option"

text \<open>The duration block of \<open>processValidatedItem\<close>; \<open>None\<close> is \<open>null\<close>.\<close>

definition parseDuration :: "env \<Rightarrow> ValidatedRSSItem \<Rightarrow> jsnum option" where
  "parseDuration env item =
     (if truthy (duration item) \<or> truthy (itunesDuration item) then
        (case jsor (duration item) (itunesDuration item) of
           JStr d \<Rightarrow>
             if CHR '':'' \<in> set d then
               (let parts = map (toNumber (numberOther env)) (splitOn (CHR '':'') d) in
                if length parts = 3 then
                  Some (jsadd (jsadd (jsmul (parts ! 0) (Num 3600)) (jsmul (parts ! 1) (Num 60)))
                              (parts ! 2))
                else if length parts = 2 then
                  Some (jsadd (jsmul (parts ! 0) (Num 60)) (parts ! 1))
                else None)
             else
               (case parseInt10 d of
                  Some parsed \<Rightarrow> Some (Num (of_int parsed))
                | None \<Rightarrow> None)
         | JNum d \<Rightarrow> Some d
         | _ \<Rightarrow> None)
      else None)"

text \<open>The publication date: the clock, unless \<open>pubDate\<close> is there and parses.\<close>

definition parsePublishedAt :: "env \<Rightarrow> ValidatedRSSItem \<Rightarrow> int" where
  "parsePublishedAt env item =
     (case pubDate item of
        Some p \<Rightarrow>
          if p \<noteq> [] then (case dateParse env p of Some t \<Rightarrow> t | None \<Rightarrow> now env)
          else now env
      | None \<Rightarrow> now env)"

definition dquote :: char where
  "dquote = CHR 0x22"

definition noAudioUrlMessage :: "string \<Rightarrow> string" where
  "noAudioUrlMessage t =
     ''No audio URL found for episode '' @ [dquote] @ t @ [dquote] @
     '' - skipping invalid episode''"

definition invalidAudioUrlMessage :: "string \<Rightarrow> string \<Rightarrow> string" where
  "invalidAudioUrlMessage t a =
     ''Invalid audio URL for episode '' @ [dquote] @ t @ [dquote] @ '': '' @ a"

definition failedToExtractMessage :: "string \<Rightarrow> string" where
  "failedToExtractMessage t =
     ''Failed to extract valid audio URL for episode '' @ [dquote] @ t @ [dquote]"

text \<open>\<open>item.contentSnippet || item.content || null\<close>.\<close>

definition descriptionOf :: "ValidatedRSSItem \<Rightarrow> string option" where
  "descriptionOf item =
     (if contentSnippet item \<noteq> None \<and> contentSnippet item \<noteq> Some [] then contentSnippet item
      else if content item \<noteq> None \<and> content item \<noteq> Some [] then content item
      else None)"

text \<open>
  \<open>processValidatedItem\<close>.  The block under \<open>if (validateUrl)\<close> is empty in the source (the
  HTTP check is commented out), so the flag changes nothing.
\<close>

definition processValidatedItem ::
  "env \<Rightarrow> ValidatedRSSItem \<Rightarrow> bool \<Rightarrow> jserror + EpisodeInsert" where
  "processValidatedItem env item validateUrl =
     (let seconds = parseDuration env item;
          published = parsePublishedAt env item
      in case extractAudioUrlFromItem (itemObject item) of
           Inl e \<Rightarrow> Inl e
         | Inr found \<Rightarrow>
             (case found of
                None \<Rightarrow> Inl (Error (noAudioUrlMessage (itemTitle item)))
              | Some a \<Rightarrow>
                  if a = [] then Inl (Error (noAudioUrlMessage (itemTitle item)))
                  else if \<not> urlParses env a
                  then Inl (Error (invalidAudioUrlMessage (itemTitle item) a))
                  else
                    (let validatedAudioUrl = a in
                     if validatedAudioUrl = []
                     then Inl (Error (failedToExtractMessage (itemTitle item)))
                     else Inr \<lparr> podcastId = [],
                                title = itemTitle item,
                                description = descriptionOf item,
                                url = link item,
                                audioUrl = Some validatedAudioUrl,
                                publishedAt = published,
                                durationSeconds = seconds \<rparr>)))"

section \<open>The feed pre-validator\<close>

text \<open>The \<open>try\<close> block of \<open>validateRSSFeed\<close>: what it throws, or that it completes.\<close>

definition fetchAndCheck :: "env \<Rightarrow> string \<Rightarrow> jserror + unit" where
  "fetchAndCheck env rssUrl =
     (case fetch env rssUrl of
        Inl e \<Rightarrow> Inl e
      | Inr rssResponse \<Rightarrow>
          if \<not> ok rssResponse then
            Inl (Error (''Unable to fetch RSS feed. Server responded with '' @
                        showNat (status rssResponse) @ '': '' @ statusText rssResponse))
          else
            (case body rssResponse of
               Inl e \<Rightarrow> Inl e
             | Inr rssText \<Rightarrow>
                 if \<not> startsWith (trim rssText) ''<?xml'' \<and> \<not> strIncludes rssText ''<rss'' \<and>
                    \<not> strIncludes rssText ''<feed''
                 then Inl (Error ''The URL does not appear to contain a valid RSS or Atom feed'')
                 else if \<not> strIncludes rssText ''<channel>'' \<and> \<not> strIncludes rssText ''<feed''
                 then Inl (Error
                   ''The RSS feed appears to be malformed (missing channel or feed element)'')
                 else Inr ()))"

text \<open>The \<open>catch\<close> block of \<open>validateRSSFeed\<close>: the error it throws in turn.\<close>

definition rethrow :: "jserror \<Rightarrow> jserror" where
  "rethrow error =
     (if (case error of TypeError m \<Rightarrow> strIncludes m ''fetch'' | _ \<Rightarrow> False) then
        Error ''Unable to connect to the RSS feed URL. Please check the URL and try again.''
      else if instanceofError error \<and> errorName error = ''TimeoutError'' then
        Error ''The RSS feed took too long to respond. Please try again later.''
      else if instanceofError error then error
      else Error
        ''An unexpected error occurred while validating the RSS feed. Please try again.'')"

text \<open>\<open>validateRSSFeed\<close>, with the requests it has sent.\<close>

definition validateRSSFeed :: "env \<Rightarrow> string \<Rightarrow> request list \<times> (jserror + unit)" where
  "validateRSSFeed env rssUrl =
     (if rssUrl = [] then ([], Inl (Error ''RSS feed URL is required''))
      else if \<not> startsWith rssUrl ''http://'' \<and> \<not> startsWith rssUrl ''https://'' then
        ([], Inl (Error ''Please enter a valid URL starting with http:// or https://''))
      else if length rssUrl > 2000 then ([], Inl (Error ''URL is too long''))
      else
        ([Fetch rssUrl],
         case fetchAndCheck env rssUrl of
           Inl error \<Rightarrow> Inl (rethrow error)
         | Inr u \<Rightarrow> Inr ()))"

section \<open>The ingestion orchestrator\<close>

text \<open>One turn of the \<open>try\<close> block in the loop of \<open>fetchEpisodes\<close>.\<close>

definition processItem :: "env \<Rightarrow> bool \<Rightarrow> jsval \<Rightarrow> jserror + EpisodeInsert" where
  "processItem env validateUrls item =
     (case RSSItemSchema (zodUrl env) item of
        Inl e \<Rightarrow> Inl e
      | Inr validatedItem \<Rightarrow> processValidatedItem env validatedItem validateUrls)"

text \<open>The \<open>catch\<close> block of the loop: the errors after which it says \<open>continue\<close>.\<close>

definition skipped :: "jserror \<Rightarrow> bool" where
  "skipped error =
     ((case error of ZodError m \<Rightarrow> True | _ \<Rightarrow> False) \<or>
      (instanceofError error \<and> strIncludes (errorMessage error) ''No audio URL found'') \<or>
      (instanceofError error \<and> strIncludes (errorMessage error) ''Invalid audio URL'') \<or>
      (instanceofError error \<and>
       strIncludes (errorMessage error) ''audio URL is not accessible''))"

fun itemLoop ::
  "env \<Rightarrow> bool \<Rightarrow> jsval list \<Rightarrow> EpisodeInsert list \<Rightarrow> jserror + EpisodeInsert list" where
  "itemLoop env validateUrls [] episodes = Inr episodes"
| "itemLoop env validateUrls (item # rest) episodes =
     (case processItem env validateUrls item of
        Inr processedEpisode \<Rightarrow> itemLoop env validateUrls rest (episodes @ [processedEpisode])
      | Inl error \<Rightarrow>
          if skipped error then itemLoop env validateUrls rest episodes else Inl error)"

text \<open>
  \<open>Array.isArray(rawFeed.items) ? rawFeed.items : []\<close>; reading \<open>items\<close> of \<open>null\<close> or
  \<open>undefined\<close> throws.
\<close>

definition feedItemsOf :: "jsval \<Rightarrow> jserror + jsval list" where
  "feedItemsOf rawFeed =
     (if rawFeed = JUndefined \<or> rawFeed = JNull then
        Inl (TypeError ''Cannot read properties of undefined (reading 'items')'')
      else (case getProp rawFeed ''items'' of JArr xs \<Rightarrow> Inr xs | _ \<Rightarrow> Inr []))"

text \<open>\<open>fetchEpisodes\<close>, with the requests it has sent.\<close>

definition fetchEpisodes ::
  "env \<Rightarrow> string \<Rightarrow> bool \<Rightarrow> request list \<times> (jserror + EpisodeInsert list)" where
  "fetchEpisodes env rssUrl validateUrls =
     (if rssUrl = [] then ([], Inl (Error ''RSS URL is required''))
      else
        (case validateRSSFeed env rssUrl of
           (sent, Inl e) \<Rightarrow> (sent, Inl e)
         | (sent, Inr u) \<Rightarrow>
             (sent @ [ParseURL rssUrl],
              case parseURL env rssUrl of
                ParseRejected e \<Rightarrow> Inl e
              | ParseHangs \<Rightarrow> Inl (Error ''RSS parsing timeout after 30 seconds'')
              | Parsed rawFeed \<Rightarrow>
                  (case feedItemsOf rawFeed of
                     Inl e \<Rightarrow> Inl e
                   | Inr feedItems \<Rightarrow> itemLoop env validateUrls feedItems []))))"

section \<open>The persistence step\<close>

text \<open>
  The episode part of the transaction of \<open>CreatePodcast\<close>.  \<open>stored u\<close> says that an episode
  with the URL \<open>u\<close> is already stored for the podcast.  The loop keeps the episodes to
  insert; the batch insert throws if one of them has no audio URL.
\<close>

definition hasAudioUrl :: "EpisodeInsert \<Rightarrow> bool" where
  "hasAudioUrl episode = (audioUrl episode \<noteq> None \<and> audioUrl episode \<noteq> Some [])"

fun newEpisodesLoop :: "(string \<Rightarrow> bool) \<Rightarrow> EpisodeInsert list \<Rightarrow> EpisodeInsert list" where
  "newEpisodesLoop stored [] = []"
| "newEpisodesLoop stored (episode # rest) =
     (if stored (url episode) then newEpisodesLoop stored rest
      else if \<not> hasAudioUrl episode then newEpisodesLoop stored rest
      else episode # newEpisodesLoop stored rest)"

definition insertNewEpisodes ::
  "(string \<Rightarrow> bool) \<Rightarrow> string \<Rightarrow> EpisodeInsert list \<Rightarrow> jserror + EpisodeInsert list" where
  "insertNewEpisodes stored id' episodes =
     (let episodesToInsert = map (\<lambda>episode. episode\<lparr>podcastId := id'\<rparr>) episodes;
          newEpisodes = newEpisodesLoop stored episodesToInsert
      in if newEpisodes \<noteq> [] then
           (if filter (\<lambda>ep. \<not> hasAudioUrl ep) newEpisodes \<noteq> [] then
              Inl (Error ''Cannot insert episodes with null audioUrl values'')
            else Inr newEpisodes)
         else Inr [])"

section \<open>The pagination cursor\<close>

text \<open>
  \<open>encodeCursor\<close> is \<open>Buffer.from(JSON.stringify({pAt, id})).toString('base64')\<close> and
  \<open>decodeCursor\<close> is \<open>JSON.parse(Buffer.from(cursor, 'base64').toString())\<close> under a
  \<open>try\<close>.  \<open>Buffer\<close> and \<open>JSON\<close> belong to the platform; they are modelled here as far as
  the cursor needs them.  Between a text and its bytes stands UTF-8, which changes nothing
  on ASCII text; text outside ASCII is kept as its UTF-8 bytes.
\<close>

subsection \<open>Base64\<close>

definition sextetChar :: "nat \<Rightarrow> char" where
  "sextetChar n =
     (if n < 26 then char_of (65 + n)
      else if n < 52 then char_of (71 + n)
      else if n < 62 then char_of (n - 4)
      else if n = 62 then CHR ''+''
      else CHR ''/'')"

text \<open>The value of a character of the base64 or of the URL-safe alphabet.\<close>

definition unbase64 :: "char \<Rightarrow> nat option" where
  "unbase64 c =
     (if CHR ''A'' \<le> c \<and> c \<le> CHR ''Z'' then Some (of_char c - 65)
      else if CHR ''a'' \<le> c \<and> c \<le> CHR ''z'' then Some (of_char c - 71)
      else if CHR ''0'' \<le> c \<and> c \<le> CHR ''9'' then Some (of_char c + 4)
      else if c = CHR ''+'' \<or> c = CHR ''-'' then Some 62
      else if c = CHR ''/'' \<or> c = CHR ''_'' then Some 63
      else None)"

text \<open>\<open>buf.toString('base64')\<close>: three bytes give four characters; the end is padded.\<close>

fun toBase64 :: "string \<Rightarrow> string" where
  "toBase64 [] = []"
| "toBase64 [a] =
     (let x = of_char a
      in [sextetChar (x div 4), sextetChar ((x mod 4) * 16), CHR ''='', CHR ''=''])"
| "toBase64 [a, b] =
     (let x = of_char a; y = of_char b
      in [sextetChar (x div 4), sextetChar ((x mod 4) * 16 + y div 16),
          sextetChar ((y mod 16) * 4), CHR ''=''])"
| "toBase64 (a # b # c # rest) =
     (let x = of_char a; y = of_char b; z = of_char c
      in [sextetChar (x div 4), sextetChar ((x mod 4) * 16 + y div 16),
          sextetChar ((y mod 16) * 4 + z div 64), sextetChar (z mod 64)] @ toBase64 rest)"

text \<open>
  \<open>Buffer.from(s, 'base64')\<close> never throws: it skips the characters outside the
  alphabet, stops at the first \<open>=\<close> and drops a last group of one character.
\<close>

definition base64Sextets :: "string \<Rightarrow> nat list" where
  "base64Sextets s = List.map_filter unbase64 (takeWhile (\<lambda>c. c \<noteq> CHR ''='') s)"

fun sextetsToBytes :: "nat list \<Rightarrow> string" where
  "sextetsToBytes (p # q # r # t # rest) =
     [char_of (p * 4 + q div 16), char_of ((q mod 16) * 16 + r div 4),
      char_of ((r mod 4) * 64 + t)] @ sextetsToBytes rest"
| "sextetsToBytes [p, q, r] =
     [char_of (p * 4 + q div 16), char_of ((q mod 16) * 16 + r div 4)]"
| "sextetsToBytes [p, q] = [char_of (p * 4 + q div 16)]"
| "sextetsToBytes ps = []"

definition fromBase64 :: "string \<Rightarrow> string" where
  "fromBase64 s = sextetsToBytes (base64Sextets s)"

subsection \<open>JSON text of a cursor\<close>

definition backslash :: char where
  "backslash = CHR 0x5C"

definition hexDigit :: "nat \<Rightarrow> char" where
  "hexDigit n = (if n < 10 then char_of (48 + n) else char_of (87 + n))"

text \<open>How \<open>JSON.stringify\<close> writes one character of a string.\<close>

definition escapeChar :: "char \<Rightarrow> string" where
  "escapeChar c =
     (if c = dquote then [backslash, dquote]
      else if c = backslash then [backslash, backslash]
      else if c = CHR 0x08 then [backslash, CHR ''b'']
      else if c = CHR 0x0C then [backslash, CHR ''f'']
      else if c = CHR 0x0A then [backslash, CHR ''n'']
      else if c = CHR 0x0D then [backslash, CHR ''r'']
      else if c = CHR 0x09 then [backslash, CHR ''t'']
      else if of_char c < (32::nat) then
        [backslash, CHR ''u'', CHR ''0'', CHR ''0'',
         hexDigit (of_char c div 16), hexDigit (of_char c mod 16)]
      else [c])"

definition quoteJSON :: "string \<Rightarrow> string" where
  "quoteJSON s = [dquote] @ concat (map escapeChar s) @ [dquote]"

definition showInt :: "int \<Rightarrow> string" where
  "showInt i = (if i < 0 then CHR ''-'' # showNat (nat (- i)) else showNat (nat i))"

text \<open>
  \<open>JSON.stringify({ pAt: publishedAt.getTime(), id })\<close>.  The time of a date is an integer
  of at most 16 digits, which is written in full.
\<close>

definition stringifyCursor :: "int \<Rightarrow> string \<Rightarrow> string" where
  "stringifyCursor pAt cid =
     [CHR ''{'', dquote] @ ''pAt'' @ [dquote, CHR '':''] @ showInt pAt @
     [CHR '','', dquote] @ ''id'' @ [dquote, CHR '':''] @ quoteJSON cid @ [CHR ''}'']"

definition encodeCursor :: "int \<Rightarrow> string \<Rightarrow> string" where
  "encodeCursor publishedAt' cid = toBase64 (stringifyCursor publishedAt' cid)"

subsection \<open>\<open>JSON.parse\<close>\<close>

datatype token =
    TLBrace | TRBrace | TLBracket | TRBracket | TColon | TComma
  | TString string | TNumber rat | TTrue | TFalse | TNull

definition jsonWhiteSpace :: "char \<Rightarrow> bool" where
  "jsonWhiteSpace c = (c = CHR 0x20 \<or> c = CHR 0x09 \<or> c = CHR 0x0A \<or> c = CHR 0x0D)"

definition isNumChar :: "char \<Rightarrow> bool" where
  "isNumChar c =
     (isDigit c \<or> c = CHR ''+'' \<or> c = CHR ''-'' \<or> c = CHR ''.'' \<or> c = CHR ''e'' \<or>
      c = CHR ''E'')"

text \<open>
  The value of a numeral of JSON: an optional minus, an integer part without a leading
  zero, an optional fraction and an optional exponent; \<open>None\<close> for any other text.
\<close>

definition parseNumberText :: "string \<Rightarrow> rat option" where
  "parseNumberText s =
     (let neg = (s \<noteq> [] \<and> hd s = CHR ''-'');
          s1 = (if neg then tl s else s);
          ip = takeWhile isDigit s1;
          r1 = dropWhile isDigit s1;
          hasFrac = (r1 \<noteq> [] \<and> hd r1 = CHR ''.'');
          fp = (if hasFrac then takeWhile isDigit (tl r1) else []);
          r2 = (if hasFrac then dropWhile isDigit (tl r1) else r1);
          hasExp = (r2 \<noteq> [] \<and> (hd r2 = CHR ''e'' \<or> hd r2 = CHR ''E''));
          r3 = (if hasExp then tl r2 else r2);
          eneg = (hasExp \<and> r3 \<noteq> [] \<and> hd r3 = CHR ''-'');
          r4 = (if hasExp \<and> r3 \<noteq> [] \<and> (hd r3 = CHR ''-'' \<or> hd r3 = CHR ''+'')
                then tl r3 else r3);
          ep = (if hasExp then takeWhile isDigit r4 else []);
          r5 = (if hasExp then dropWhile isDigit r4 else r4);
          mantissa = of_nat (decimalValue ip) + of_nat (decimalValue fp) / 10 ^ length fp;
          scaled = (if eneg then mantissa / 10 ^ decimalValue ep
                    else mantissa * 10 ^ decimalValue ep)
      in if ip = [] \<or> (length ip > 1 \<and> hd ip = CHR ''0'') \<or> (hasFrac \<and> fp = []) \<or>
            (hasExp \<and> ep = []) \<or> r5 \<noteq> []
         then None
         else Some (if neg then - scaled else scaled))"

definition hexValue :: "char \<Rightarrow> nat option" where
  "hexValue c =
     (if CHR ''0'' \<le> c \<and> c \<le> CHR ''9'' then Some (of_char c - 48)
      else if CHR ''a'' \<le> c \<and> c \<le> CHR ''f'' then Some (of_char c - 87)
      else if CHR ''A'' \<le> c \<and> c \<le> CHR ''F'' then Some (of_char c - 55)
      else None)"

definition hex4 :: "char \<Rightarrow> char \<Rightarrow> char \<Rightarrow> char \<Rightarrow> nat option" where
  "hex4 a b c d =
     (case (hexValue a, hexValue b, hexValue c, hexValue d) of
        (Some p, Some q, Some r, Some t) \<Rightarrow> Some (((p * 16 + q) * 16 + r) * 16 + t)
      | _ \<Rightarrow> None)"

text \<open>The UTF-8 bytes of the code unit that \<open>\uXXXX\<close> names.\<close>

definition utf8 :: "nat \<Rightarrow> string" where
  "utf8 n =
     (if n < 128 then [char_of n]
      else if n < 2048 then [char_of (192 + n div 64), char_of (128 + n mod 64)]
      else [char_of (224 + n div 4096), char_of (128 + (n div 64) mod 64),
            char_of (128 + n mod 64)])"

definition unescape :: "char \<Rightarrow> char option" where
  "unescape e =
     (if e = dquote then Some dquote
      else if e = backslash then Some backslash
      else if e = CHR ''/'' then Some (CHR ''/'')
      else if e = CHR ''b'' then Some (CHR 0x08)
      else if e = CHR ''f'' then Some (CHR 0x0C)
      else if e = CHR ''n'' then Some (CHR 0x0A)
      else if e = CHR ''r'' then Some (CHR 0x0D)
      else if e = CHR ''t'' then Some (CHR 0x09)
      else None)"

text \<open>
  The lexer, outside a string and inside one (with the characters read so far, last
  first).  \<open>None\<close>: the text has no division into tokens, and \<open>JSON.parse\<close> throws.
\<close>

datatype lexmode = Top | InString string

function lex :: "lexmode \<Rightarrow> string \<Rightarrow> token list option" where
  "lex Top [] = Some []"
| "lex Top (c # cs) =
     (if jsonWhiteSpace c then lex Top cs
      else if c = CHR ''{'' then map_option (Cons TLBrace) (lex Top cs)
      else if c = CHR ''}'' then map_option (Cons TRBrace) (lex Top cs)
      else if c = CHR ''['' then map_option (Cons TLBracket) (lex Top cs)
      else if c = CHR '']'' then map_option (Cons TRBracket) (lex Top cs)
      else if c = CHR '':'' then map_option (Cons TColon) (lex Top cs)
      else if c = CHR '','' then map_option (Cons TComma) (lex Top cs)
      else if c = dquote then lex (InString []) cs
      else if c = CHR ''-'' \<or> isDigit c then
        (case parseNumberText (c # takeWhile isNumChar cs) of
           None \<Rightarrow> None
         | Some n \<Rightarrow> map_option (Cons (TNumber n)) (lex Top (dropWhile isNumChar cs)))
      else if startsWith (c # cs) ''true'' then map_option (Cons TTrue) (lex Top (drop 3 cs))
      else if startsWith (c # cs) ''false'' then
        map_option (Cons TFalse) (lex Top (drop 4 cs))
      else if startsWith (c # cs) ''null'' then map_option (Cons TNull) (lex Top (drop 3 cs))
      else None)"
| "lex (InString acc) [] = None"
| "lex (InString acc) (c # cs) =
     (if c = dquote then map_option (Cons (TString (rev acc))) (lex Top cs)
      else if c = backslash then
        (case cs of
           [] \<Rightarrow> None
         | e # rest \<Rightarrow>
             if e = CHR ''u'' then
               (case rest of
                  h1 # h2 # h3 # h4 # rest' \<Rightarrow>
                    (case hex4 h1 h2 h3 h4 of
                       None \<Rightarrow> None
                     | Some n \<Rightarrow> lex (InString (rev (utf8 n) @ acc)) rest')
                | _ \<Rightarrow> None)
             else
               (case unescape e of
                  None \<Rightarrow> None
                | Some ch \<Rightarrow> lex (InString (ch # acc)) rest))
      else if of_char c < (32::nat) then None
      else lex (InString (c # acc)) cs)"
  by pat_completeness auto
termination
  by (relation "measure (\<lambda>(m, s). length s)")
     (auto simp add: le_imp_less_Suc length_dropWhile_le)

text \<open>
  The parser: a machine that reads the tokens one by one.  A frame is an array or an
  object under construction (the object with the key that waits for its value).  A
  repeated key keeps its first place and takes the last value.
\<close>

datatype frame = ArrFrame "jsval list" | ObjFrame "(string \<times> jsval) list" string

datatype pstate =
    NeedValue "frame list"
  | ArrStart "frame list"
  | InArr "jsval list" "frame list"
  | ObjStart "frame list"
  | NeedKey "(string \<times> jsval) list" "frame list"
  | NeedColon "(string \<times> jsval) list" string "frame list"
  | InObj "(string \<times> jsval) list" "frame list"
  | Done jsval
  | Failed

fun deliver :: "jsval \<Rightarrow> frame list \<Rightarrow> pstate" where
  "deliver v [] = Done v"
| "deliver v (ArrFrame xs # st) = InArr (xs @ [v]) st"
| "deliver v (ObjFrame al k # st) = InObj (AList.update k v al) st"

fun startValue :: "frame list \<Rightarrow> token \<Rightarrow> pstate" where
  "startValue st (TString s) = deliver (JStr s) st"
| "startValue st (TNumber n) = deliver (JNum (Num n)) st"
| "startValue st TTrue = deliver (JBool True) st"
| "startValue st TFalse = deliver (JBool False) st"
| "startValue st TNull = deliver JNull st"
| "startValue st TLBrace = ObjStart st"
| "startValue st TLBracket = ArrStart st"
| "startValue st t = Failed"

fun step :: "pstate \<Rightarrow> token \<Rightarrow> pstate" where
  "step (NeedValue st) t = startValue st t"
| "step (ArrStart st) t =
     (if t = TRBracket then deliver (JArr []) st else startValue (ArrFrame [] # st) t)"
| "step (InArr xs st) t =
     (if t = TComma then NeedValue (ArrFrame xs # st)
      else if t = TRBracket then deliver (JArr xs) st
      else Failed)"
| "step (ObjStart st) t =
     (case t of TRBrace \<Rightarrow> deliver (JObj []) st | TString k \<Rightarrow> NeedColon [] k st
      | _ \<Rightarrow> Failed)"
| "step (NeedKey al st) t = (case t of TString k \<Rightarrow> NeedColon al k st | _ \<Rightarrow> Failed)"
| "step (NeedColon al k st) t =
     (if t = TColon then NeedValue (ObjFrame al k # st) else Failed)"
| "step (InObj al st) t =
     (if t = TComma then NeedKey al st
      else if t = TRBrace then deliver (JObj al) st
      else Failed)"
| "step (Done v) t = Failed"
| "step Failed t = Failed"

text \<open>\<open>JSON.parse\<close>; \<open>None\<close> when it throws.\<close>

definition JSON_parse :: "string \<Rightarrow> jsval option" where
  "JSON_parse s =
     (case lex Top s of
        None \<Rightarrow> None
      | Some ts \<Rightarrow> (case foldl step (NeedValue []) ts of Done v \<Rightarrow> Some v | _ \<Rightarrow> None))"

text \<open>\<open>decodeCursor\<close>: the parsed value, or \<open>null\<close> from the \<open>catch\<close>.\<close>

definition decodeCursor :: "string \<Rightarrow> jsval" where
  "decodeCursor cursor =
     (case JSON_parse (fromBase64 cursor) of Some decoded \<Rightarrow> decoded | None \<Rightarrow> JNull)"

section \<open>The pagination endpoint\<close>

text \<open>
  The stored rows.  An \<open>Episode\<close> is an \<open>EpisodeInsert\<close> with its \<open>id\<close> (here \<open>episodeId\<close>)
  and its two timestamps; the query returns it with two columns of its podcast.
\<close>

record Episode = EpisodeInsert +
  episodeId :: string
  createdAt :: int
  updatedAt :: int

record UnlistenedRow = Episode +
  podcastTitle :: string
  podcastImageUrl :: "string option"

record Podcast =
  podcastKey :: string
  podcastName :: string
  imageUrl :: "string option"

record PodcastSubscription =
  subscribedPodcastId :: string
  subscriberId :: string

record ListenedEpisode =
  listenedEpisodeId :: string
  listenerId :: string
  listened :: bool

text \<open>
  The database.  \<open>unusableCursor\<close> is what executing the query gives when the decoded
  cursor is not a time and a string (the comparisons then get an invalid date or no
  string, and what the driver does with them is not in the source).
\<close>

record database =
  episodeTable :: "Episode list"
  podcastTable :: "Podcast list"
  subscriptionTable :: "PodcastSubscription list"
  listenedTable :: "ListenedEpisode list"
  unusableCursor :: "jsval \<Rightarrow> UnlistenedRow list \<Rightarrow> nat \<Rightarrow> jserror + UnlistenedRow list"

record requestContext =
  isAuthenticated :: bool
  identity :: "string option"

record UnlistenedEpisodesResponse =
  episodes :: "UnlistenedRow list"
  hasNextPage :: bool
  nextCursor :: "string option"

text \<open>
  How a call of the handler can fail.  \<open>permissions.deny()\<close> of the Keel runtime records the
  refusal and throws a \<open>PermissionError\<close>, so the \<open>return\<close> that follows it in the source
  is never reached; \<open>permissions.allow()\<close> records the grant and returns.  The other
  failure is a rejection of the query by the database.
\<close>

datatype endpointError = PermissionError | QueryError jserror

definition joinRow :: "Episode \<Rightarrow> Podcast \<Rightarrow> UnlistenedRow" where
  "joinRow e p =
     Episode.extend e (UnlistenedRow.fields (podcastName p) (imageUrl p))"

text \<open>
  The rows of the query before the cursor and the podcast filter: the episodes, joined
  with their podcast, of the podcasts the user subscribes to, without those the user has
  listened to.
\<close>

definition subscribedPodcasts :: "database \<Rightarrow> string \<Rightarrow> string list" where
  "subscribedPodcasts db identityId =
     [subscribedPodcastId s. s \<leftarrow> subscriptionTable db, subscriberId s = identityId]"

definition hasListened :: "database \<Rightarrow> string \<Rightarrow> string \<Rightarrow> bool" where
  "hasListened db identityId eid =
     list_ex (\<lambda>l. listenedEpisodeId l = eid \<and> listenerId l = identityId \<and> listened l)
       (listenedTable db)"

definition unlistenedRows :: "database \<Rightarrow> string \<Rightarrow> UnlistenedRow list" where
  "unlistenedRows db identityId =
     [joinRow e p. e \<leftarrow> episodeTable db, p \<leftarrow> podcastTable db, podcastId e = podcastKey p,
        List.member (subscribedPodcasts db identityId) (podcastId e),
        \<not> hasListened db identityId (episodeId e)]"

text \<open>\<open>ORDER BY publishedAt DESC, id DESC\<close>.\<close>

definition sortKey :: "UnlistenedRow \<Rightarrow> int \<times> string" where
  "sortKey r = (publishedAt r, episodeId r)"

definition orderDesc :: "UnlistenedRow list \<Rightarrow> UnlistenedRow list" where
  "orderDesc rows = rev (sort_key sortKey rows)"

text \<open>
  The keyset condition: \<open>publishedAt < cursorDate\<close>, or \<open>publishedAt = cursorDate\<close> and
  \<open>id < cursor.id\<close>.
\<close>

definition keysetFilter :: "int \<Rightarrow> string \<Rightarrow> UnlistenedRow \<Rightarrow> bool" where
  "keysetFilter cursorDate cid r =
     (publishedAt r < cursorDate \<or> (publishedAt r = cursorDate \<and> episodeId r < cid))"

text \<open>
  What the endpoint makes of \<open>after\<close>: no condition (no cursor, the empty string, or a
  cursor that decodes to a falsy value), the keyset condition, or a decoded value whose
  \<open>pAt\<close> is not a number in the range of \<open>Date\<close> or whose \<open>id\<close> is not a string.
  \<open>new Date(t)\<close> drops the fraction of \<open>t\<close>.
\<close>

datatype cursorUse = NoCursor | Keyset int string | Unusable jsval

definition truncateRat :: "rat \<Rightarrow> int" where
  "truncateRat t = (if 0 \<le> t then \<lfloor>t\<rfloor> else \<lceil>t\<rceil>)"

definition cursorOf :: "string option \<Rightarrow> cursorUse" where
  "cursorOf after =
     (case after of
        None \<Rightarrow> NoCursor
      | Some a \<Rightarrow>
          if a = [] then NoCursor
          else
            (let cursor = decodeCursor a
             in if \<not> truthy cursor then NoCursor
                else
                  (case (getProp cursor ''pAt'', getProp cursor ''id'') of
                     (JNum (Num t), JStr cid) \<Rightarrow>
                       if \<bar>t\<bar> \<le> 8640000000000000 then Keyset (truncateRat t) cid
                       else Unusable cursor
                   | _ \<Rightarrow> Unusable cursor)))"

definition executeQuery ::
  "database \<Rightarrow> string \<Rightarrow> nat \<Rightarrow> cursorUse \<Rightarrow> string option \<Rightarrow> jserror + UnlistenedRow list"
  where
  "executeQuery db identityId limit cu podcastId' =
     (let rows = unlistenedRows db identityId;
          wanted = (case podcastId' of
                      Some p \<Rightarrow> if p \<noteq> [] then filter (\<lambda>r. podcastId r = p) rows else rows
                    | None \<Rightarrow> rows)
      in case cu of
           NoCursor \<Rightarrow> Inr (take limit (orderDesc wanted))
         | Keyset cursorDate cid \<Rightarrow>
             Inr (take limit (orderDesc (filter (keysetFilter cursorDate cid) wanted)))
         | Unusable c \<Rightarrow> unusableCursor db c (orderDesc wanted) limit)"

text \<open>\<open>Math.min(Math.max(first || 20, 1), 100)\<close>.\<close>

definition pageSizeOf :: "int option \<Rightarrow> int" where
  "pageSizeOf first =
     min (max (case first of None \<Rightarrow> 20 | Some n \<Rightarrow> if n = 0 then 20 else n) 1) 100"

definition UnlistenedEpisodes ::
  "database \<Rightarrow> requestContext \<Rightarrow> string option \<Rightarrow> int option \<Rightarrow> string option \<Rightarrow>
     endpointError + UnlistenedEpisodesResponse" where
  "UnlistenedEpisodes db ctx podcastId' first after =
     (case (isAuthenticated ctx, identity ctx) of
        (True, Some identityId) \<Rightarrow>
          (let pageSize = nat (pageSizeOf first);
               limit = pageSize + 1
           in case executeQuery db identityId limit (cursorOf after) podcastId' of
                Inl e \<Rightarrow> Inl (QueryError e)
              | Inr results \<Rightarrow>
                  (let hasMore = (length results > pageSize);
                       page = (if hasMore then take pageSize results else results);
                       cursor = (if hasMore \<and> page \<noteq> []
                               then Some (encodeCursor (publishedAt (last page))
                                            (episodeId (last page)))
                               else None)
                   in Inr \<lparr> episodes = page, hasNextPage = hasMore, nextCursor = cursor \<rparr>))
      | _ \<Rightarrow> Inl PermissionError)"

section \<open>Notions of the specification\<close>

text \<open>
  An enclosure whose extractable URL is text (or that has none), and an enclosure whose
  extractable URL shows MP3 evidence.
\<close>

definition urlIsText :: "jsval \<Rightarrow> bool" where
  "urlIsText enc = (case getUrlFromEnclosure enc of JStr u \<Rightarrow> True | v \<Rightarrow> \<not> truthy v)"

definition mp3Candidate :: "jsval \<Rightarrow> bool" where
  "mp3Candidate enc = (case getUrlFromEnclosure enc of JStr u \<Rightarrow> isMp3Url u | _ \<Rightarrow> False)"

text \<open>The episode that a feed item contributes to the batch, if it contributes one.\<close>

definition okEpisode :: "env \<Rightarrow> bool \<Rightarrow> jsval \<Rightarrow> EpisodeInsert option" where
  "okEpisode env validateUrls item =
     (case processItem env validateUrls item of Inr ep \<Rightarrow> Some ep | Inl e \<Rightarrow> None)"

section \<open>A concrete world\<close>

text \<open>
  A world whose server answers every request with a small RSS document and whose parser
  yields the given feed.  \<open>new URL\<close> and Zod's URL check are taken to accept the strings
  with an \<open>http\<close> or \<open>https\<close> scheme; no date parses; \<open>Number\<close> is \<open>NaN\<close> outside digit
  strings.  The sample feed has a playable episode, an episode whose enclosure is a web
  page, an item without a title and an episode whose audio URL is relative.
\<close>

definition hasScheme :: "string \<Rightarrow> bool" where
  "hasScheme s = (startsWith s ''http://'' \<or> startsWith s ''https://'')"

definition feedWorld :: "jsval \<Rightarrow> env" where
  "feedWorld rawFeed =
     \<lparr> fetch = (\<lambda>u. Inr \<lparr> ok = True, status = 200, statusText = ''OK'',
                            contentType = Some ''application/rss+xml'',
                            body = Inr ''<rss version=2.0><channel></channel></rss>'' \<rparr>),
       parseURL = (\<lambda>u. Parsed rawFeed),
       urlParses = hasScheme,
       zodUrl = hasScheme,
       dateParse = (\<lambda>s. None),
       now = 1700000000000,
       numberOther = (\<lambda>s. NaN) \<rparr>"

definition playableItem :: jsval where
  "playableItem =
     JObj [(''title'', JStr ''Episode 1''), (''link'', JStr ''https://example.com/1''),
           (''contentSnippet'', JStr ''Show notes''), (''itunes:duration'', JStr ''01:02:03''),
           (''enclosure'', JObj [(''url'', JStr ''https://cdn.example.com/ep1.mp3''),
                                 (''type'', JStr ''audio/mpeg''), (''length'', JStr ''1234'')])]"

definition webPageItem :: jsval where
  "webPageItem =
     JObj [(''title'', JStr ''Episode 2''), (''link'', JStr ''https://example.com/2''),
           (''contentSnippet'', JStr ''Show notes''),
           (''enclosure'', JObj [(''url'', JStr ''https://example.com/ep2.html'')])]"

definition untitledItem :: jsval where
  "untitledItem =
     JObj [(''link'', JStr ''https://example.com/3''), (''content'', JStr ''Show notes''),
           (''enclosure'', JObj [(''url'', JStr ''https://cdn.example.com/ep3.mp3'')])]"

definition relativeUrlItem :: jsval where
  "relativeUrlItem =
     JObj [(''title'', JStr ''Episode 4''), (''link'', JStr ''https://example.com/4''),
           (''content'', JStr ''Show notes''),
           (''enclosure'', JObj [(''url'', JStr ''episodes/ep4.mp3'')])]"

definition numericUrlItem :: jsval where
  "numericUrlItem =
     JObj [(''title'', JStr ''Episode 5''), (''link'', JStr ''https://example.com/5''),
           (''content'', JStr ''Show notes''),
           (''enclosure'', JObj [(''url'', JNum (Num 5))])]"

definition mixedEnclosureItem :: jsval where
  "mixedEnclosureItem =
     JObj [(''title'', JStr ''Episode 6''), (''link'', JStr ''https://example.com/6''),
           (''content'', JStr ''Show notes''),
           (''enclosure'', JArr [JObj [(''url'', JNum (Num 5))],
                                 JObj [(''url'', JStr ''https://cdn.example.com/ep1.mp3'')]])]"

definition sampleFeed :: jsval where
  "sampleFeed =
     JObj [(''title'', JStr ''Sample Show''),
           (''items'', JArr [playableItem, webPageItem, untitledItem, relativeUrlItem])]"

definition playableEpisode :: EpisodeInsert where
  "playableEpisode =
     \<lparr> podcastId = [], title = ''Episode 1'', description = Some ''Show notes'',
       url = ''https://example.com/1'', audioUrl = Some ''https://cdn.example.com/ep1.mp3'',
       publishedAt = 1700000000000, durationSeconds = Some (Num 3723) \<rparr>"

definition sampleItem :: "jsval \<Rightarrow> ValidatedRSSItem" where
  "sampleItem d =
     \<lparr> itemTitle = ''Episode 7'', link = ''https://example.com/7'',
       contentSnippet = Some ''Show notes'', content = None, pubDate = None,
       duration = d, itunesDuration = JUndefined,
       enclosure = JObj [(''url'', JStr ''https://cdn.example.com/ep7.mp3'')] \<rparr>"

text \<open>
  A database with one podcast, its subscriber \<open>ann\<close> and three episodes, published at
  the times 3000, 2000 and 1000.
\<close>

definition storedEpisode :: "string \<Rightarrow> int \<Rightarrow> Episode" where
  "storedEpisode eid t =
     \<lparr> podcastId = ''pod1'', title = ''Episode '' @ eid, description = None,
       url = ''https://example.com/'' @ eid,
       audioUrl = Some (''https://cdn.example.com/'' @ eid @ ''.mp3''),
       publishedAt = t, durationSeconds = None,
       episodeId = eid, createdAt = t, updatedAt = t \<rparr>"

definition sampleDb :: database where
  "sampleDb =
     \<lparr> episodeTable = [storedEpisode ''e1'' 1000, storedEpisode ''e3'' 3000,
                       storedEpisode ''e2'' 2000],
       podcastTable = [\<lparr> podcastKey = ''pod1'', podcastName = ''Sample Show'',
                          imageUrl = None \<rparr>],
       subscriptionTable = [\<lparr> subscribedPodcastId = ''pod1'', subscriberId = ''ann'' \<rparr>],
       listenedTable = [],
       unusableCursor = (\<lambda>c rows limit. Inl (Error ''invalid input syntax'')) \<rparr>"

definition ann :: requestContext where
  "ann = \<lparr> isAuthenticated = True, identity = Some ''ann'' \<rparr>"

definition sampleRow :: "string \<Rightarrow> int \<Rightarrow> UnlistenedRow" where
  "sampleRow eid t =
     joinRow (storedEpisode eid t)
       \<lparr> podcastKey = ''pod1'', podcastName = ''Sample Show'', imageUrl = None \<rparr>"


section \<open>The audio URL extractor: properties\<close>

lemma isMp3Url_Nil: "\<not> isMp3Url []"
  by (simp add: isMp3Url_def toLowerCase_def)

lemma isAudioUrl_Nil: "\<not> isAudioUrl []"
  by (simp add: isAudioUrl_def toLowerCase_def)

lemma isMp3Url_isAudioUrl: "isMp3Url u \<Longrightarrow> isAudioUrl u"
  by (auto simp add: isMp3Url_def isAudioUrl_def Let_def)

lemma audio_text_nonempty: "isMp3Url u \<or> isAudioUrl u \<Longrightarrow> u \<noteq> []"
  using isMp3Url_Nil isAudioUrl_Nil by auto

lemma firstPass_skip:
  assumes "urlIsText c" and "\<not> mp3Candidate c"
  shows "firstPass (c # rest) = firstPass rest"
  using assms by (auto simp add: urlIsText_def mp3Candidate_def Let_def split: jsval.splits)

lemma firstPass_hit:
  assumes "getUrlFromEnclosure e = JStr u" and "isMp3Url u"
  shows "firstPass (e # rest) = Inr (Some u)"
  using assms isMp3Url_Nil by (auto simp add: Let_def)

lemma firstPass_first_mp3:
  assumes "\<forall>c\<in>set pre. urlIsText c \<and> \<not> mp3Candidate c"
    and "getUrlFromEnclosure e = JStr u" and "isMp3Url u"
  shows "firstPass (pre @ e # post) = Inr (Some u)"
  using assms
proof (induction pre)
  case Nil
  then show ?case using firstPass_hit by simp
next
  case (Cons c pre)
  then show ?case using firstPass_skip[of c "pre @ e # post"] by simp
qed

text \<open>
  The first pass over textual URLs.  In an array of enclosures, let \<open>e\<close> be the first one
  whose extractable URL \<open>u\<close> contains \<open>.mp3\<close>, \<open>audio/mpeg\<close> or \<open>audio/mp3\<close> once lowercased,
  and let every enclosure before it carry a textual URL or none.  Then
  \<open>extractFromEnclosure\<close> returns \<open>u\<close>, whatever stands before and after \<open>e\<close>.
\<close>

theorem extractFromEnclosure_first_mp3:
  assumes "\<forall>c\<in>set pre. urlIsText c \<and> \<not> mp3Candidate c"
    and "getUrlFromEnclosure e = JStr u" and "isMp3Url u"
  shows "extractFromEnclosure (JArr (pre @ e # post)) = Inr (Some u)"
  using firstPass_first_mp3[OF assms] by (simp add: extractFromEnclosure_def)

text \<open>
  With two enclosures, one \<open>.html\<close> and one \<open>.mp3\<close>, the \<open>.mp3\<close> URL is chosen in both orders.
\<close>

theorem extractFromEnclosure_first_mp3_witness:
  "extractFromEnclosure
     (JArr [JObj [(''url'', JStr ''https://example.com/ep1.html'')],
            JObj [(''url'', JStr ''https://cdn.example.com/ep1.mp3'')]])
     = Inr (Some ''https://cdn.example.com/ep1.mp3'') \<and>
   extractFromEnclosure
     (JArr [JObj [(''url'', JStr ''https://cdn.example.com/ep1.mp3'')],
            JObj [(''url'', JStr ''https://example.com/ep1.html'')]])
     = Inr (Some ''https://cdn.example.com/ep1.mp3'')"
proof -
  let ?html = "JObj [(''url'', JStr ''https://example.com/ep1.html'')]"
  let ?mp3 = "JObj [(''url'', JStr ''https://cdn.example.com/ep1.mp3'')]"
  have before: "\<forall>c\<in>set [?html]. urlIsText c \<and> \<not> mp3Candidate c"
    by code_simp
  have empty_before: "\<forall>c\<in>set ([]::jsval list). urlIsText c \<and> \<not> mp3Candidate c"
    by simp
  have u: "getUrlFromEnclosure ?mp3 = JStr ''https://cdn.example.com/ep1.mp3''"
    by code_simp
  have m: "isMp3Url ''https://cdn.example.com/ep1.mp3''"
    by code_simp
  from extractFromEnclosure_first_mp3[OF before u m, of "[]"]
       extractFromEnclosure_first_mp3[OF empty_before u m, of "[?html]"]
  show ?thesis by simp
qed

text \<open>
  Claim C4.  Of an array of enclosures with an MP3 candidate, \<open>extractFromEnclosure\<close> is to
  return the URL of the first such candidate, wherever the other candidates stand.  The
  code misses this on the array of \<open>{url: 5}\<close> and \<open>{url: "https://cdn.example.com/ep1.mp3"}\<close>:
  \<open>getUrlFromEnclosure\<close>, declared to return \<open>string | null\<close>, hands the number 5 back from
  its early \<open>return enc.url\<close>, which lacks the \<open>typeof ... === 'string'\<close> test that its two
  key loops and \<open>isAudioType\<close> make, and the first pass calls \<open>url.toLowerCase()\<close> on it.
  That throws a \<open>TypeError\<close> before the MP3 enclosure is looked at.  An item with this
  enclosure passes the schema, whose enclosure admits any value, the error is none of
  the skipped ones, and it ends the item loop.
\<close>

theorem extractFromEnclosure_number_url_throws:
  "mp3Candidate (JObj [(''url'', JStr ''https://cdn.example.com/ep1.mp3'')]) \<and>
   getUrlFromEnclosure (JObj [(''url'', JNum (Num 5))]) = JNum (Num 5) \<and>
   extractFromEnclosure
     (JArr [JObj [(''url'', JNum (Num 5))],
            JObj [(''url'', JStr ''https://cdn.example.com/ep1.mp3'')]])
     = Inl (TypeError ''url.toLowerCase is not a function'') \<and>
   processItem (feedWorld sampleFeed) False mixedEnclosureItem =
     Inl (TypeError ''url.toLowerCase is not a function'') \<and>
   itemLoop (feedWorld sampleFeed) False [playableItem, mixedEnclosureItem] [] =
     Inl (TypeError ''url.toLowerCase is not a function'')"
  by code_simp

text \<open>
  Claim C5.  A single enclosure (not an array) is accepted with the URL \<open>u\<close> exactly when
  \<open>u\<close> is its extractable URL and passes the MP3 check or the broader audio check.  The
  \<open>type\<close> attribute is not consulted: a lone enclosure whose URL text has no audio
  indicator is rejected even if its type says audio, and the same enclosure in a
  one-element array is accepted.
\<close>

theorem extractFromEnclosure_single:
  assumes "\<forall>xs. enc \<noteq> JArr xs"
  shows "(extractFromEnclosure enc = Inr (Some u) \<longleftrightarrow>
            getUrlFromEnclosure enc = JStr u \<and> (isMp3Url u \<or> isAudioUrl u)) \<and>
         (getUrlFromEnclosure enc = JStr u \<and> u \<noteq> [] \<and> \<not> isAudioUrl u \<and> isAudioType enc \<longrightarrow>
            extractFromEnclosure enc = Inr None \<and>
            extractFromEnclosure (JArr [enc]) = Inr (Some u))"
proof (intro conjI impI)
  show "extractFromEnclosure enc = Inr (Some u) \<longleftrightarrow>
          getUrlFromEnclosure enc = JStr u \<and> (isMp3Url u \<or> isAudioUrl u)"
    using assms audio_text_nonempty[of u]
    by (cases enc; cases "getUrlFromEnclosure enc")
       (auto simp add: extractFromEnclosure_def Let_def notAFunction_def split: if_splits)
next
  assume a: "getUrlFromEnclosure enc = JStr u \<and> u \<noteq> [] \<and> \<not> isAudioUrl u \<and> isAudioType enc"
  then have n: "\<not> isMp3Url u"
    using isMp3Url_isAudioUrl by blast
  show "extractFromEnclosure enc = Inr None"
    using assms a n by (cases enc) (auto simp add: extractFromEnclosure_def Let_def)
  show "extractFromEnclosure (JArr [enc]) = Inr (Some u)"
    using a n by (simp add: extractFromEnclosure_def Let_def)
qed

theorem extractFromEnclosure_single_witness:
  "extractFromEnclosure
     (JObj [(''url'', JStr ''https://cdn.example.com/stream/42''),
            (''type'', JStr ''audio/mpeg'')]) = Inr None \<and>
   extractFromEnclosure
     (JArr [JObj [(''url'', JStr ''https://cdn.example.com/stream/42''),
                  (''type'', JStr ''audio/mpeg'')]])
     = Inr (Some ''https://cdn.example.com/stream/42'')"
proof -
  let ?e = "JObj [(''url'', JStr ''https://cdn.example.com/stream/42''),
                  (''type'', JStr ''audio/mpeg'')]"
  have lone: "\<forall>xs. ?e \<noteq> JArr xs"
    by simp
  have a: "getUrlFromEnclosure ?e = JStr ''https://cdn.example.com/stream/42'' \<and>
           ''https://cdn.example.com/stream/42'' \<noteq> [] \<and>
           \<not> isAudioUrl ''https://cdn.example.com/stream/42'' \<and> isAudioType ?e"
    by code_simp
  from extractFromEnclosure_single[OF lone, of "''https://cdn.example.com/stream/42''"] a
  show ?thesis by blast
qed

section \<open>The feed pre-validator: properties\<close>

text \<open>
  Claim C8.  \<open>validateRSSFeed\<close> rejects an empty URL, a URL that starts with neither
  \<open>http://\<close> nor \<open>https://\<close>, and a URL of more than 2000 characters, each with its own
  error and with no request sent; \<open>fetchEpisodes\<close> then fails too and has sent nothing.
\<close>

theorem validateRSSFeed_rejects_before_fetch:
  "(rssUrl = [] \<longrightarrow>
      validateRSSFeed env rssUrl = ([], Inl (Error ''RSS feed URL is required''))) \<and>
   (rssUrl \<noteq> [] \<and> \<not> startsWith rssUrl ''http://'' \<and> \<not> startsWith rssUrl ''https://'' \<longrightarrow>
      validateRSSFeed env rssUrl =
        ([], Inl (Error ''Please enter a valid URL starting with http:// or https://''))) \<and>
   ((startsWith rssUrl ''http://'' \<or> startsWith rssUrl ''https://'') \<and>
    length rssUrl > 2000 \<longrightarrow>
      validateRSSFeed env rssUrl = ([], Inl (Error ''URL is too long''))) \<and>
   (rssUrl = [] \<or> (\<not> startsWith rssUrl ''http://'' \<and> \<not> startsWith rssUrl ''https://'') \<or>
    length rssUrl > 2000 \<longrightarrow>
      fst (fetchEpisodes env rssUrl validateUrls) = [] \<and>
      isl (snd (fetchEpisodes env rssUrl validateUrls)))"
  by (auto simp add: validateRSSFeed_def fetchEpisodes_def startsWith_def)

theorem validateRSSFeed_rejects_before_fetch_witness:
  "validateRSSFeed (feedWorld sampleFeed) ''example.com/feed.xml'' =
     ([], Inl (Error ''Please enter a valid URL starting with http:// or https://'')) \<and>
   fst (fetchEpisodes (feedWorld sampleFeed) ''example.com/feed.xml'' False) = [] \<and>
   isl (snd (fetchEpisodes (feedWorld sampleFeed) ''example.com/feed.xml'' False))"
proof -
  have h: "''example.com/feed.xml'' \<noteq> [] \<and> \<not> startsWith ''example.com/feed.xml'' ''http://'' \<and>
           \<not> startsWith ''example.com/feed.xml'' ''https://''"
    by (simp add: startsWith_def)
  from validateRSSFeed_rejects_before_fetch
         [of "''example.com/feed.xml''" "feedWorld sampleFeed" False] h
  show ?thesis by blast
qed

section \<open>The ingestion orchestrator: properties\<close>

lemma strIncludes_startsWith: "startsWith s p \<Longrightarrow> strIncludes s p"
  by (cases s) (auto simp add: startsWith_def)

lemma strIncludes_prefix: "strIncludes (p @ s) p"
  by (rule strIncludes_startsWith) (simp add: startsWith_def)

lemma skipped_ZodError: "skipped (ZodError m)"
  by (simp add: skipped_def)

lemma skipped_noAudioUrl: "skipped (Error (noAudioUrlMessage t))"
  unfolding skipped_def noAudioUrlMessage_def
  using strIncludes_prefix[of "''No audio URL found''"
      "'' for episode '' @ [dquote] @ t @ [dquote] @ '' - skipping invalid episode''"]
  by simp

lemma skipped_invalidAudioUrl: "skipped (Error (invalidAudioUrlMessage t a))"
  unfolding skipped_def invalidAudioUrlMessage_def
  using strIncludes_prefix[of "''Invalid audio URL''"
      "'' for episode '' @ [dquote] @ t @ [dquote] @ '': '' @ a"]
  by simp

lemma not_skipped_notAFunction: "\<not> skipped notAFunction"
  by code_simp

lemma firstPass_error: "firstPass encs = Inl e \<Longrightarrow> e = notAFunction"
  by (induction encs) (auto simp add: Let_def split: if_splits jsval.splits)

lemma secondPass_error: "secondPass encs = Inl e \<Longrightarrow> e = notAFunction"
  by (induction encs) (auto simp add: Let_def split: if_splits jsval.splits)

lemma extractFromEnclosure_error: "extractFromEnclosure v = Inl e \<Longrightarrow> e = notAFunction"
  by (auto simp add: extractFromEnclosure_def Let_def
      split: jsval.splits sum.splits option.splits if_splits
      dest: firstPass_error secondPass_error)

lemma tryShape_error: "tryShape shape rest = Inl e \<Longrightarrow> rest = Inl e \<or> e = notAFunction"
  by (auto simp add: tryShape_def split: if_splits sum.splits option.splits
      dest: extractFromEnclosure_error)

lemma extractAudioUrlFromItem_error:
  "extractAudioUrlFromItem item = Inl e \<Longrightarrow> e = notAFunction"
  unfolding extractAudioUrlFromItem_def Let_def
  by (auto dest!: tryShape_error split: if_splits)

lemma RSSItemSchema_error: "RSSItemSchema isUrl item = Inl e \<Longrightarrow> \<exists>m. e = ZodError m"
  by (auto simp add: RSSItemSchema_def split: jsval.splits if_splits)

lemma processValidatedItem_error:
  "processValidatedItem env item v = Inl e \<Longrightarrow>
     e = Error (noAudioUrlMessage (itemTitle item)) \<or>
     (\<exists>a. e = Error (invalidAudioUrlMessage (itemTitle item) a)) \<or> e = notAFunction"
  by (auto simp add: processValidatedItem_def Let_def split: sum.splits option.splits if_splits
      dest: extractAudioUrlFromItem_error)

lemma processItem_error:
  assumes failed: "processItem env v item = Inl e"
  shows "(\<exists>m. e = ZodError m) \<or> (\<exists>t. e = Error (noAudioUrlMessage t)) \<or>
         (\<exists>t a. e = Error (invalidAudioUrlMessage t a)) \<or> e = notAFunction"
proof (cases "RSSItemSchema (zodUrl env) item")
  case (Inl z)
  then show ?thesis
    using failed RSSItemSchema_error[of "zodUrl env" item e] by (simp add: processItem_def)
next
  case (Inr validated)
  then have "processValidatedItem env validated v = Inl e"
    using failed by (simp add: processItem_def)
  from processValidatedItem_error[OF this] show ?thesis by blast
qed

lemma itemLoop_skip:
  assumes "processItem env v item = Inl e" and "skipped e"
  shows "itemLoop env v (pre @ item # rest) batch = itemLoop env v (pre @ rest) batch"
  using assms by (induction pre arbitrary: batch) (auto split: sum.splits)

lemma itemLoop_fatal:
  assumes "processItem env v item = Inl e" and "\<not> skipped e"
    and "\<forall>p\<in>set pre. \<forall>e'. processItem env v p = Inl e' \<longrightarrow> skipped e'"
  shows "itemLoop env v (pre @ item # rest) batch = Inl e"
  using assms by (induction pre arbitrary: batch) (auto split: sum.splits)

text \<open>
  Claim C3.  When processing a feed item fails with \<open>e\<close>, the loop skips the item exactly
  when \<open>e\<close> is a schema validation error, the missing-audio-URL error or the
  invalid-audio-URL error.  A skipped item leaves the loop as if the item were not in the
  feed.  Any other failure, at an item before which nothing fatal happened, is the result
  of the whole loop: the episodes collected so far are not returned.
\<close>

theorem itemLoop_item_failures:
  "(processItem env v item = Inl e \<longrightarrow>
      (skipped e \<longleftrightarrow> (\<exists>m. e = ZodError m) \<or> (\<exists>t. e = Error (noAudioUrlMessage t)) \<or>
                       (\<exists>t a. e = Error (invalidAudioUrlMessage t a)))) \<and>
   (processItem env v item = Inl e \<and> skipped e \<longrightarrow>
      itemLoop env v (pre @ item # rest) batch = itemLoop env v (pre @ rest) batch) \<and>
   (processItem env v item = Inl e \<and> \<not> skipped e \<and>
    (\<forall>p\<in>set pre. \<forall>e'. processItem env v p = Inl e' \<longrightarrow> skipped e') \<longrightarrow>
      itemLoop env v (pre @ item # rest) batch = Inl e)"
proof (intro conjI impI)
  assume a: "processItem env v item = Inl e"
  show "skipped e \<longleftrightarrow> (\<exists>m. e = ZodError m) \<or> (\<exists>t. e = Error (noAudioUrlMessage t)) \<or>
                       (\<exists>t a. e = Error (invalidAudioUrlMessage t a))"
    using processItem_error[OF a] skipped_ZodError skipped_noAudioUrl skipped_invalidAudioUrl
      not_skipped_notAFunction
    by (auto simp add: notAFunction_def)
next
  assume "processItem env v item = Inl e \<and> skipped e"
  then show "itemLoop env v (pre @ item # rest) batch =
             itemLoop env v (pre @ rest) batch"
    using itemLoop_skip by blast
next
  assume "processItem env v item = Inl e \<and> \<not> skipped e \<and>
          (\<forall>p\<in>set pre. \<forall>e'. processItem env v p = Inl e' \<longrightarrow> skipped e')"
  then show "itemLoop env v (pre @ item # rest) batch = Inl e"
    using itemLoop_fatal by blast
qed

theorem itemLoop_item_failures_witness:
  "itemLoop (feedWorld sampleFeed) False [playableItem, untitledItem, playableItem] [] =
     itemLoop (feedWorld sampleFeed) False [playableItem, playableItem] [] \<and>
   itemLoop (feedWorld sampleFeed) False [playableItem, webPageItem, playableItem] [] =
     itemLoop (feedWorld sampleFeed) False [playableItem, playableItem] [] \<and>
   itemLoop (feedWorld sampleFeed) False [playableItem, relativeUrlItem] [] =
     itemLoop (feedWorld sampleFeed) False [playableItem] [] \<and>
   itemLoop (feedWorld sampleFeed) False [playableItem, numericUrlItem, playableItem] [] =
     Inl (TypeError ''url.toLowerCase is not a function'')"
proof -
  let ?W = "feedWorld sampleFeed"
  have z: "processItem ?W False untitledItem = Inl (ZodError ''Required'') \<and>
           skipped (ZodError ''Required'')"
    by code_simp
  have n: "processItem ?W False webPageItem = Inl (Error (noAudioUrlMessage ''Episode 2'')) \<and>
           skipped (Error (noAudioUrlMessage ''Episode 2''))"
    by code_simp
  have i: "processItem ?W False relativeUrlItem =
             Inl (Error (invalidAudioUrlMessage ''Episode 4'' ''episodes/ep4.mp3'')) \<and>
           skipped (Error (invalidAudioUrlMessage ''Episode 4'' ''episodes/ep4.mp3''))"
    by code_simp
  have g: "processItem ?W False playableItem = Inr playableEpisode"
    by code_simp
  have t0: "processItem ?W False numericUrlItem =
              Inl (TypeError ''url.toLowerCase is not a function'') \<and>
            \<not> skipped (TypeError ''url.toLowerCase is not a function'')"
    by code_simp
  from g t0 have t:
    "processItem ?W False numericUrlItem =
       Inl (TypeError ''url.toLowerCase is not a function'') \<and>
     \<not> skipped (TypeError ''url.toLowerCase is not a function'') \<and>
     (\<forall>p\<in>set [playableItem]. \<forall>e'. processItem ?W False p = Inl e' \<longrightarrow> skipped e')"
    by simp
  from itemLoop_item_failures
         [of ?W False untitledItem "ZodError ''Required''" "[playableItem]" "[playableItem]" "[]"] z
  have 1: "itemLoop ?W False ([playableItem] @ untitledItem # [playableItem]) [] =
           itemLoop ?W False ([playableItem] @ [playableItem]) []"
    by blast
  from itemLoop_item_failures
         [of ?W False webPageItem "Error (noAudioUrlMessage ''Episode 2'')"
             "[playableItem]" "[playableItem]" "[]"] n
  have 2: "itemLoop ?W False ([playableItem] @ webPageItem # [playableItem]) [] =
           itemLoop ?W False ([playableItem] @ [playableItem]) []"
    by blast
  from itemLoop_item_failures
         [of ?W False relativeUrlItem
             "Error (invalidAudioUrlMessage ''Episode 4'' ''episodes/ep4.mp3'')"
             "[playableItem]" "[]" "[]"] i
  have 3: "itemLoop ?W False ([playableItem] @ relativeUrlItem # []) [] =
           itemLoop ?W False ([playableItem] @ []) []"
    by blast
  from itemLoop_item_failures
         [of ?W False numericUrlItem "TypeError ''url.toLowerCase is not a function''"
             "[playableItem]" "[playableItem]" "[]"] t
  have 4: "itemLoop ?W False ([playableItem] @ numericUrlItem # [playableItem]) [] =
           Inl (TypeError ''url.toLowerCase is not a function'')"
    by blast
  from 1 2 3 4 show ?thesis by simp
qed

lemma itemLoop_Inr:
  "itemLoop env v items acc = Inr eps \<Longrightarrow>
     eps = acc @ List.map_filter (okEpisode env v) items"
proof (induction items arbitrary: acc)
  case Nil
  then show ?case by (simp add: List.map_filter_simps)
next
  case (Cons item items)
  show ?case
  proof (cases "processItem env v item")
    case (Inr ep)
    with Cons.prems have "itemLoop env v items (acc @ [ep]) = Inr eps"
      by simp
    from Cons.IH[OF this] Inr show ?thesis
      by (simp add: okEpisode_def List.map_filter_simps)
  next
    case (Inl e)
    with Cons.prems have "itemLoop env v items acc = Inr eps"
      by (simp split: if_splits)
    from Cons.IH[OF this] Inl show ?thesis
      by (simp add: okEpisode_def List.map_filter_simps)
  qed
qed

lemma processValidatedItem_Inr:
  "processValidatedItem env item v = Inr ep \<Longrightarrow>
     \<exists>a. extractAudioUrlFromItem (itemObject item) = Inr (Some a) \<and> a \<noteq> [] \<and>
         urlParses env a \<and> audioUrl ep = Some a"
  by (auto simp add: processValidatedItem_def Let_def
      split: sum.splits option.splits if_splits)

lemma processItem_Inr:
  "processItem env v item = Inr ep \<Longrightarrow>
     \<exists>validated a. RSSItemSchema (zodUrl env) item = Inr validated \<and>
        extractAudioUrlFromItem (itemObject validated) = Inr (Some a) \<and> a \<noteq> [] \<and>
        urlParses env a \<and> audioUrl ep = Some a"
  by (auto simp add: processItem_def split: sum.splits dest: processValidatedItem_Inr)

lemma fetchEpisodes_Inr:
  assumes "fetchEpisodes env rssUrl v = (sent, Inr batch)"
  shows "\<exists>rawFeed feedItems. parseURL env rssUrl = Parsed rawFeed \<and>
           feedItemsOf rawFeed = Inr feedItems \<and>
           itemLoop env v feedItems [] = Inr batch"
  using assms
  by (auto simp add: fetchEpisodes_def
      split: if_splits prod.splits sum.splits parseOutcome.splits)

lemma newEpisodesLoop_hasAudioUrl:
  "ep \<in> set (newEpisodesLoop stored eps) \<Longrightarrow> hasAudioUrl ep"
  by (induction eps) (auto split: if_splits)

lemma insertNewEpisodes_hasAudioUrl:
  "insertNewEpisodes stored pid eps = Inr inserted \<Longrightarrow> ep \<in> set inserted \<Longrightarrow> hasAudioUrl ep"
  by (auto simp add: insertNewEpisodes_def Let_def split: if_splits
      dest: newEpisodesLoop_hasAudioUrl)

lemma newEpisodesLoop_filter:
  "newEpisodesLoop stored eps =
     filter (\<lambda>episode. \<not> stored (url episode) \<and> hasAudioUrl episode) eps"
  by (induction eps) simp_all

lemma insertNewEpisodes_filter:
  "insertNewEpisodes stored pid eps =
     Inr (filter (\<lambda>episode. \<not> stored (url episode) \<and> hasAudioUrl episode)
            (map (\<lambda>episode. episode\<lparr>podcastId := pid\<rparr>) eps))"
proof -
  let ?new = "newEpisodesLoop stored (map (\<lambda>episode. episode\<lparr>podcastId := pid\<rparr>) eps)"
  have "filter (\<lambda>ep. \<not> hasAudioUrl ep) ?new = []"
    by (simp add: newEpisodesLoop_filter)
  then have "insertNewEpisodes stored pid eps = Inr ?new"
    by (simp add: insertNewEpisodes_def Let_def)
  then show ?thesis
    by (simp add: newEpisodesLoop_filter)
qed

lemma okEpisode_Some:
  assumes "okEpisode env v item = Some ep"
  shows "\<exists>validated a. RSSItemSchema (zodUrl env) item = Inr validated \<and>
           extractAudioUrlFromItem (itemObject validated) = Inr (Some a) \<and> a \<noteq> [] \<and>
           urlParses env a \<and> audioUrl ep = Some a"
  using assms processItem_Inr[of env v item ep]
  by (auto simp add: okEpisode_def split: sum.splits)

lemma fetchEpisodes_batch_valid:
  assumes "fetchEpisodes env rssUrl v = (sent, Inr batch)"
  shows "(\<forall>ep\<in>set batch. \<exists>a. audioUrl ep = Some a \<and> a \<noteq> [] \<and> urlParses env a) \<and>
         (\<exists>rawFeed feedItems. parseURL env rssUrl = Parsed rawFeed \<and>
            feedItemsOf rawFeed = Inr feedItems \<and>
            batch = List.map_filter (okEpisode env v) feedItems)"
proof -
  from fetchEpisodes_Inr[OF assms] obtain rawFeed feedItems where
    p: "parseURL env rssUrl = Parsed rawFeed" "feedItemsOf rawFeed = Inr feedItems"
    and l: "itemLoop env v feedItems [] = Inr batch"
    by blast
  from itemLoop_Inr[OF l] have e: "batch = List.map_filter (okEpisode env v) feedItems"
    by simp
  have "\<exists>a. audioUrl ep = Some a \<and> a \<noteq> [] \<and> urlParses env a" if "ep \<in> set batch" for ep
  proof -
    from that e obtain item where "okEpisode env v item = Some ep"
      by (auto simp add: List.map_filter_def)
    from okEpisode_Some[OF this] show ?thesis by blast
  qed
  with p e show ?thesis
    by blast
qed

lemma insertNewEpisodes_refuses:
  assumes "insertNewEpisodes stored pid eps = Inr inserted"
  shows "(\<forall>ep\<in>set inserted. \<exists>a. audioUrl ep = Some a \<and> a \<noteq> []) \<and>
         (\<forall>ep\<in>set eps. audioUrl ep = None \<longrightarrow> ep\<lparr>podcastId := pid\<rparr> \<notin> set inserted)"
proof (intro conjI ballI impI)
  fix ep
  assume "ep \<in> set inserted"
  with insertNewEpisodes_hasAudioUrl[OF assms] have "hasAudioUrl ep"
    by blast
  then show "\<exists>a. audioUrl ep = Some a \<and> a \<noteq> []"
    by (auto simp add: hasAudioUrl_def)
next
  fix ep
  assume "ep \<in> set eps" and n: "audioUrl ep = None"
  from n have "\<not> hasAudioUrl (ep\<lparr>podcastId := pid\<rparr>)"
    by (simp add: hasAudioUrl_def)
  with insertNewEpisodes_hasAudioUrl[OF assms] show "ep\<lparr>podcastId := pid\<rparr> \<notin> set inserted"
    by blast
qed

text \<open>
  Claim C1.  When \<open>fetchEpisodes\<close> returns a batch, every episode of it has an audio URL
  that is not \<open>null\<close>, not empty and that \<open>new URL\<close> parses.  The batch holds, in feed
  order, the episodes of exactly the items that pass the schema and yield such a URL;
  every other item is left out.  The persistence step, given any list of episodes
  whatever, inserts exactly those of them that are not stored yet and have an audio URL:
  an episode whose audio URL is \<open>null\<close> (or empty) is never among the inserted ones.
\<close>

theorem fetchEpisodes_audioUrl_valid:
  "(fetchEpisodes env rssUrl v = (sent, Inr batch) \<longrightarrow>
      (\<forall>ep\<in>set batch. \<exists>a. audioUrl ep = Some a \<and> a \<noteq> [] \<and> urlParses env a) \<and>
      (\<exists>rawFeed feedItems. parseURL env rssUrl = Parsed rawFeed \<and>
         feedItemsOf rawFeed = Inr feedItems \<and>
         batch = List.map_filter (okEpisode env v) feedItems)) \<and>
   (\<forall>item ep. okEpisode env v item = Some ep \<longrightarrow>
      (\<exists>validated a. RSSItemSchema (zodUrl env) item = Inr validated \<and>
         extractAudioUrlFromItem (itemObject validated) = Inr (Some a) \<and>
         urlParses env a \<and> audioUrl ep = Some a)) \<and>
   insertNewEpisodes stored pid eps =
     Inr (filter (\<lambda>episode. \<not> stored (url episode) \<and> hasAudioUrl episode)
            (map (\<lambda>episode. episode\<lparr>podcastId := pid\<rparr>) eps)) \<and>
   (\<forall>inserted. insertNewEpisodes stored pid eps = Inr inserted \<longrightarrow>
      (\<forall>ep\<in>set inserted. \<exists>a. audioUrl ep = Some a \<and> a \<noteq> []) \<and>
      (\<forall>ep\<in>set eps. audioUrl ep = None \<longrightarrow> ep\<lparr>podcastId := pid\<rparr> \<notin> set inserted))"
proof -
  have 1: "fetchEpisodes env rssUrl v = (sent, Inr batch) \<longrightarrow>
      (\<forall>ep\<in>set batch. \<exists>a. audioUrl ep = Some a \<and> a \<noteq> [] \<and> urlParses env a) \<and>
      (\<exists>rawFeed feedItems. parseURL env rssUrl = Parsed rawFeed \<and>
         feedItemsOf rawFeed = Inr feedItems \<and>
         batch = List.map_filter (okEpisode env v) feedItems)"
    by (rule impI) (rule fetchEpisodes_batch_valid)
  have 2: "\<forall>item ep. okEpisode env v item = Some ep \<longrightarrow>
      (\<exists>validated a. RSSItemSchema (zodUrl env) item = Inr validated \<and>
         extractAudioUrlFromItem (itemObject validated) = Inr (Some a) \<and>
         urlParses env a \<and> audioUrl ep = Some a)"
    using okEpisode_Some[of env v] by blast
  have 3: "insertNewEpisodes stored pid eps =
     Inr (filter (\<lambda>episode. \<not> stored (url episode) \<and> hasAudioUrl episode)
            (map (\<lambda>episode. episode\<lparr>podcastId := pid\<rparr>) eps))"
    by (rule insertNewEpisodes_filter)
  have 4: "\<forall>inserted. insertNewEpisodes stored pid eps = Inr inserted \<longrightarrow>
      (\<forall>ep\<in>set inserted. \<exists>a. audioUrl ep = Some a \<and> a \<noteq> []) \<and>
      (\<forall>ep\<in>set eps. audioUrl ep = None \<longrightarrow> ep\<lparr>podcastId := pid\<rparr> \<notin> set inserted)"
    by (intro allI impI) (rule insertNewEpisodes_refuses)
  show ?thesis
    by (rule conjI[OF 1 conjI[OF 2 conjI[OF 3 4]]])
qed

text \<open>
  The sample feed gives one episode; the web page and the relative URL are left out.  Of
  that episode and a copy of it without audio URL, the persistence step inserts the
  first only.
\<close>

theorem fetchEpisodes_audioUrl_valid_witness:
  "fetchEpisodes (feedWorld sampleFeed) ''https://example.com/feed.xml'' False =
     ([Fetch ''https://example.com/feed.xml'', ParseURL ''https://example.com/feed.xml''],
      Inr [playableEpisode]) \<and>
   (\<exists>a. audioUrl playableEpisode = Some a \<and> a \<noteq> [] \<and> urlParses (feedWorld sampleFeed) a) \<and>
   okEpisode (feedWorld sampleFeed) False webPageItem = None \<and>
   okEpisode (feedWorld sampleFeed) False relativeUrlItem = None \<and>
   insertNewEpisodes (\<lambda>u. False) ''pod1''
     [playableEpisode, playableEpisode\<lparr>title := ''Episode 9'', audioUrl := None\<rparr>] =
     Inr [playableEpisode\<lparr>podcastId := ''pod1''\<rparr>] \<and>
   playableEpisode\<lparr>title := ''Episode 9'', audioUrl := None, podcastId := ''pod1''\<rparr> \<notin>
     set [playableEpisode\<lparr>podcastId := ''pod1''\<rparr>]"
proof -
  let ?silent = "playableEpisode\<lparr>title := ''Episode 9'', audioUrl := None\<rparr>"
  have h: "fetchEpisodes (feedWorld sampleFeed) ''https://example.com/feed.xml'' False =
     ([Fetch ''https://example.com/feed.xml'', ParseURL ''https://example.com/feed.xml''],
      Inr [playableEpisode])"
    by code_simp
  have x: "okEpisode (feedWorld sampleFeed) False webPageItem = None \<and>
           okEpisode (feedWorld sampleFeed) False relativeUrlItem = None"
    by code_simp
  have a: "hasAudioUrl (playableEpisode\<lparr>podcastId := ''pod1''\<rparr>)"
    and n: "\<not> hasAudioUrl (?silent\<lparr>podcastId := ''pod1''\<rparr>)" "audioUrl ?silent = None"
    by (simp_all add: hasAudioUrl_def playableEpisode_def)
  note t = fetchEpisodes_audioUrl_valid[where env = "feedWorld sampleFeed"
      and rssUrl = "''https://example.com/feed.xml''" and v = False
      and sent = "[Fetch ''https://example.com/feed.xml'', ParseURL ''https://example.com/feed.xml'']"
      and batch = "[playableEpisode]" and stored = "\<lambda>u. False" and pid = "''pod1''"
      and eps = "[playableEpisode, ?silent]"]
  from t h
  have 1: "\<forall>ep\<in>set [playableEpisode].
          \<exists>a. audioUrl ep = Some a \<and> a \<noteq> [] \<and> urlParses (feedWorld sampleFeed) a"
    by blast
  from t a n
  have 2: "insertNewEpisodes (\<lambda>u. False) ''pod1'' [playableEpisode, ?silent] =
             Inr [playableEpisode\<lparr>podcastId := ''pod1''\<rparr>]"
    by simp
  from t 2
  have "\<forall>ep\<in>set [playableEpisode, ?silent]. audioUrl ep = None \<longrightarrow>
          ep\<lparr>podcastId := ''pod1''\<rparr> \<notin> set [playableEpisode\<lparr>podcastId := ''pod1''\<rparr>]"
    by blast
  with n(2)
  have 3: "?silent\<lparr>podcastId := ''pod1''\<rparr> \<notin> set [playableEpisode\<lparr>podcastId := ''pod1''\<rparr>]"
    by simp
  from h x 1 2 3 show ?thesis by simp
qed

text \<open>
  Claim C2 as it is written fails: for a feed that parses to no item, \<open>fetchEpisodes\<close>
  returns the empty batch.
\<close>

theorem fetchEpisodes_empty_feed_returns:
  "fetchEpisodes (feedWorld (JObj [(''title'', JStr ''Quiet Show''), (''items'', JArr [])]))
     ''https://example.com/feed.xml'' False =
   ([Fetch ''https://example.com/feed.xml'', ParseURL ''https://example.com/feed.xml''],
    Inr [])"
  by code_simp

text \<open>
  Claim C2, amended.  When the URL passes the pre-validation and the feed parses to a
  document whose \<open>items\<close> is an empty array or no array at all, \<open>fetchEpisodes\<close> returns
  the empty batch: the loop is lenient at the feed level and raises no error for a feed
  without items.
\<close>

theorem fetchEpisodes_empty_feed:
  assumes "snd (validateRSSFeed env rssUrl) = Inr ()"
    and "parseURL env rssUrl = Parsed rawFeed"
    and "rawFeed \<noteq> JUndefined" and "rawFeed \<noteq> JNull"
    and "\<forall>xs. getProp rawFeed ''items'' = JArr xs \<longrightarrow> xs = []"
  shows "snd (fetchEpisodes env rssUrl validateUrls) = Inr []"
proof -
  from assms(1) have ne: "rssUrl \<noteq> []"
    by (auto simp add: validateRSSFeed_def)
  from assms(3,4,5) have "feedItemsOf rawFeed = Inr []"
    by (auto simp add: feedItemsOf_def split: jsval.splits)
  with ne assms(1,2) show ?thesis
    by (auto simp add: fetchEpisodes_def split: prod.splits sum.splits)
qed

theorem fetchEpisodes_empty_feed_witness:
  "snd (fetchEpisodes (feedWorld (JObj [(''title'', JStr ''Quiet Show'')]))
          ''https://example.com/feed.xml'' True) = Inr []"
proof -
  let ?feed = "JObj [(''title'', JStr ''Quiet Show'')]"
  have 1: "snd (validateRSSFeed (feedWorld ?feed) ''https://example.com/feed.xml'') = Inr ()"
    by code_simp
  have 2: "parseURL (feedWorld ?feed) ''https://example.com/feed.xml'' = Parsed ?feed"
    by (simp add: feedWorld_def)
  have 3: "?feed \<noteq> JUndefined" and 4: "?feed \<noteq> JNull"
    by simp_all
  have 5: "\<forall>xs. getProp ?feed ''items'' = JArr xs \<longrightarrow> xs = []"
    by simp
  from fetchEpisodes_empty_feed[OF 1 2 3 4 5] show ?thesis .
qed

section \<open>The episode normalizer: properties\<close>

lemma itemObject_props:
  "getProp (itemObject item) ''enclosure'' = enclosure item"
  "getProp (itemObject item) ''enclosures'' = JUndefined"
  "getProp (itemObject item) ''media:content'' = JUndefined"
  "getProp (itemObject item) ''mediaContent'' = JUndefined"
  "getProp (itemObject item) ''media:group'' = JUndefined"
  "getProp (itemObject item) ''mediaGroup'' = JUndefined"
  by (cases "contentSnippet item"; cases "content item"; cases "pubDate item";
      simp add: itemObject_def optionalField_def)+

lemma extractAudioUrlFromItem_itemObject:
  "extractAudioUrlFromItem (itemObject item) = tryShape (enclosure item) (Inr None)"
proof -
  have t: "truthy (itemObject item)"
    by (simp add: itemObject_def)
  show ?thesis
    unfolding extractAudioUrlFromItem_def Let_def itemObject_props
    using t by (auto simp add: nullish_def jsand_def tryShape_def)
qed

lemma processValidatedItem_duration_free:
  "isl (processValidatedItem env (item\<lparr>duration := x, itunesDuration := y\<rparr>) v) =
   isl (processValidatedItem env item v)"
  by (simp add: processValidatedItem_def Let_def extractAudioUrlFromItem_itemObject
      split: sum.splits option.splits)

lemma processValidatedItem_durationSeconds:
  "processValidatedItem env item v = Inr ep \<Longrightarrow> durationSeconds ep = parseDuration env item"
  by (auto simp add: processValidatedItem_def Let_def
      split: sum.splits option.splits if_splits)

lemma parseDuration_hms:
  "duration item = JStr ''01:02:03'' \<Longrightarrow> parseDuration env item = Some (Num 3723)"
  by (simp add: parseDuration_def jsor_def toNumber_def isDigit_def decimalValue_def
      digitVal_def)

lemma parseDuration_ms:
  "duration item = JStr ''02:03'' \<Longrightarrow> parseDuration env item = Some (Num 123)"
  by (simp add: parseDuration_def jsor_def toNumber_def isDigit_def decimalValue_def
      digitVal_def)

lemma parseDuration_seconds:
  "duration item = JStr ''2730'' \<Longrightarrow> parseDuration env item = Some (Num 2730)"
  by (simp add: parseDuration_def jsor_def parseInt10_def isWhiteSpace_def isDigit_def
      decimalValue_def digitVal_def)

lemma parseDuration_garbage:
  "duration item = JStr ''garbage'' \<Longrightarrow> parseDuration env item = None"
  by (simp add: parseDuration_def jsor_def parseInt10_def isWhiteSpace_def isDigit_def
      decimalValue_def digitVal_def)

lemma parseDuration_number:
  "duration item = JNum n \<Longrightarrow> n \<noteq> NaN \<Longrightarrow> n \<noteq> Num 0 \<Longrightarrow> parseDuration env item = Some n"
  by (simp add: parseDuration_def jsor_def)

lemma parseDuration_no_colon:
  "duration item = JStr d \<Longrightarrow> d \<noteq> [] \<Longrightarrow> CHR '':'' \<notin> set d \<Longrightarrow>
     parseDuration env item = map_option (\<lambda>n. Num (of_int n)) (parseInt10 d)"
  by (simp add: parseDuration_def jsor_def split: option.splits)

lemma parseDuration_other_colons:
  "duration item = JStr d \<Longrightarrow> CHR '':'' \<in> set d \<Longrightarrow>
   length (splitOn (CHR '':'') d) \<noteq> 2 \<Longrightarrow> length (splitOn (CHR '':'') d) \<noteq> 3 \<Longrightarrow>
     parseDuration env item = None"
  by (auto simp add: parseDuration_def jsor_def Let_def)

text \<open>
  Claim C6 as it is written fails twice: the duration string \<open>45 min\<close> is none of the
  three shapes and yet gives 45 seconds (\<open>parseInt\<close> reads the leading digits), and the
  numeric duration 0 gives \<open>null\<close>, not 0 (the value is tested for truth first).
\<close>

theorem processValidatedItem_duration_leading_digits:
  "map_sum id durationSeconds
     (processValidatedItem (feedWorld sampleFeed) (sampleItem (JStr ''45 min'')) True)
     = Inr (Some (Num 45)) \<and>
   map_sum id durationSeconds
     (processValidatedItem (feedWorld sampleFeed) (sampleItem (JNum (Num 0))) True)
     = Inr None"
  by code_simp

text \<open>
  Claim C6, amended.  The duration \<open>01:02:03\<close> gives 3723 seconds, \<open>02:03\<close> gives 123,
  \<open>2730\<close> gives 2730 and \<open>garbage\<close> gives \<open>null\<close>; a number other than 0 and \<open>NaN\<close> is used
  as it is.  A non-empty string without a colon gives what \<open>parseInt\<close> reads from its
  start, and \<open>null\<close> when \<open>parseInt\<close> reads no digit; a string with a colon and with
  neither two nor three components gives \<open>null\<close>.  The episode carries the duration so
  computed, and no duration makes an item fail that would succeed with another one.
\<close>

theorem parseDuration_shapes:
  "(duration item = JStr ''01:02:03'' \<longrightarrow> parseDuration env item = Some (Num 3723)) \<and>
   (duration item = JStr ''02:03'' \<longrightarrow> parseDuration env item = Some (Num 123)) \<and>
   (duration item = JStr ''2730'' \<longrightarrow> parseDuration env item = Some (Num 2730)) \<and>
   (duration item = JStr ''garbage'' \<longrightarrow> parseDuration env item = None) \<and>
   (duration item = JNum n \<and> n \<noteq> NaN \<and> n \<noteq> Num 0 \<longrightarrow> parseDuration env item = Some n) \<and>
   (duration item = JStr d \<and> d \<noteq> [] \<and> CHR '':'' \<notin> set d \<longrightarrow>
      parseDuration env item = map_option (\<lambda>n. Num (of_int n)) (parseInt10 d)) \<and>
   (duration item = JStr d \<and> CHR '':'' \<in> set d \<and>
    length (splitOn (CHR '':'') d) \<noteq> 2 \<and> length (splitOn (CHR '':'') d) \<noteq> 3 \<longrightarrow>
      parseDuration env item = None) \<and>
   (processValidatedItem env item v = Inr ep \<longrightarrow>
      durationSeconds ep = parseDuration env item) \<and>
   isl (processValidatedItem env (item\<lparr>duration := x, itunesDuration := y\<rparr>) v) =
     isl (processValidatedItem env item v)"
  using parseDuration_hms parseDuration_ms parseDuration_seconds parseDuration_garbage
    parseDuration_number[where item = item and n = n and env = env]
    parseDuration_no_colon[where item = item and d = d and env = env]
    parseDuration_other_colons[where item = item and d = d and env = env]
    processValidatedItem_durationSeconds[where env = env and item = item and v = v and ep = ep]
    processValidatedItem_duration_free[where env = env and item = item and x = x and y = y
      and v = v]
  by blast

theorem parseDuration_shapes_witness:
  "parseDuration (feedWorld sampleFeed) (sampleItem (JStr ''01:02:03'')) = Some (Num 3723) \<and>
   parseDuration (feedWorld sampleFeed) (sampleItem (JStr ''02:03'')) = Some (Num 123) \<and>
   parseDuration (feedWorld sampleFeed) (sampleItem (JStr ''2730'')) = Some (Num 2730) \<and>
   parseDuration (feedWorld sampleFeed) (sampleItem (JStr ''garbage'')) = None \<and>
   parseDuration (feedWorld sampleFeed) (sampleItem (JNum (Num 90))) = Some (Num 90) \<and>
   parseDuration (feedWorld sampleFeed) (sampleItem (JStr ''45 min'')) = Some (Num 45) \<and>
   parseDuration (feedWorld sampleFeed) (sampleItem (JStr ''1:2:3:4'')) = None \<and>
   isl (processValidatedItem (feedWorld sampleFeed) (sampleItem (JStr ''garbage'')) True) =
     isl (processValidatedItem (feedWorld sampleFeed) (sampleItem JUndefined) True)"
proof -
  let ?W = "feedWorld sampleFeed"
  have f: "duration (sampleItem q) = q" for q
    by (simp add: sampleItem_def)
  have u: "(sampleItem JUndefined)\<lparr>duration := JStr ''garbage'', itunesDuration := JUndefined\<rparr>
             = sampleItem (JStr ''garbage'')"
    by (simp add: sampleItem_def)
  have p: "parseInt10 ''45 min'' = Some 45"
    by code_simp
  have c: "CHR '':'' \<notin> set ''45 min'' \<and> ''45 min'' \<noteq> []"
    by simp
  have s: "CHR '':'' \<in> set ''1:2:3:4'' \<and> length (splitOn (CHR '':'') ''1:2:3:4'') \<noteq> 2 \<and>
           length (splitOn (CHR '':'') ''1:2:3:4'') \<noteq> 3"
    by simp
  have n: "Num 90 \<noteq> NaN \<and> Num 90 \<noteq> Num 0"
    by simp
  from parseDuration_shapes[where item = "sampleItem (JStr ''01:02:03'')" and env = ?W] f
  have 1: "parseDuration ?W (sampleItem (JStr ''01:02:03'')) = Some (Num 3723)"
    by blast
  from parseDuration_shapes[where item = "sampleItem (JStr ''02:03'')" and env = ?W] f
  have 2: "parseDuration ?W (sampleItem (JStr ''02:03'')) = Some (Num 123)"
    by blast
  from parseDuration_shapes[where item = "sampleItem (JStr ''2730'')" and env = ?W] f
  have 3: "parseDuration ?W (sampleItem (JStr ''2730'')) = Some (Num 2730)"
    by blast
  from parseDuration_shapes[where item = "sampleItem (JStr ''garbage'')" and env = ?W] f
  have 4: "parseDuration ?W (sampleItem (JStr ''garbage'')) = None"
    by blast
  from parseDuration_shapes[where item = "sampleItem (JNum (Num 90))" and env = ?W
         and n = "Num 90"] f n
  have 5: "parseDuration ?W (sampleItem (JNum (Num 90))) = Some (Num 90)"
    by blast
  from parseDuration_shapes[where item = "sampleItem (JStr ''45 min'')" and env = ?W
         and d = "''45 min''"] f c
  have "parseDuration ?W (sampleItem (JStr ''45 min'')) =
          map_option (\<lambda>n. Num (of_int n)) (parseInt10 ''45 min'')"
    by blast
  with p have 6: "parseDuration ?W (sampleItem (JStr ''45 min'')) = Some (Num 45)"
    by simp
  from parseDuration_shapes[where item = "sampleItem (JStr ''1:2:3:4'')" and env = ?W
         and d = "''1:2:3:4''"] f s
  have 7: "parseDuration ?W (sampleItem (JStr ''1:2:3:4'')) = None"
    by blast
  from parseDuration_shapes
         [where item = "sampleItem JUndefined" and env = ?W and v = True
          and x = "JStr ''garbage''" and y = JUndefined] u
  have 8: "isl (processValidatedItem ?W (sampleItem (JStr ''garbage'')) True) =
           isl (processValidatedItem ?W (sampleItem JUndefined) True)"
    by simp
  from 1 2 3 4 5 6 7 8 show ?thesis by blast
qed

section \<open>The pagination cursor: properties\<close>

subsection \<open>Base64 decoding inverts encoding\<close>

lemma base64_byte1:
  fixes x y :: nat
  assumes "y < 256"
  shows "x div 4 * 4 + (x mod 4 * 16 + y div 16) div 16 = x"
proof -
  from assms have "y div 16 < 16"
    by simp
  then have "(x mod 4 * 16 + y div 16) div 16 = x mod 4"
    by simp
  then show ?thesis
    by simp
qed

lemma base64_byte2:
  fixes x y z :: nat
  assumes "y < 256" and "z < 256"
  shows "(x mod 4 * 16 + y div 16) mod 16 * 16 + (y mod 16 * 4 + z div 64) div 4 = y"
proof -
  from assms have "y div 16 < 16" "z div 64 < 4"
    by simp_all
  then have "(x mod 4 * 16 + y div 16) mod 16 = y div 16"
    "(y mod 16 * 4 + z div 64) div 4 = y mod 16"
    by simp_all
  then show ?thesis
    by simp
qed

lemma base64_byte3:
  fixes y z :: nat
  assumes "z < 256"
  shows "(y mod 16 * 4 + z div 64) mod 4 * 64 + z mod 64 = z"
proof -
  from assms have "z div 64 < 4"
    by simp
  then have "(y mod 16 * 4 + z div 64) mod 4 = z div 64"
    by simp
  then show ?thesis
    by simp
qed

lemma sextets_all:
  "\<forall>n\<in>set [0..<64]. unbase64 (sextetChar n) = Some n \<and> sextetChar n \<noteq> CHR ''=''"
  by code_simp

lemma unbase64_sextetChar:
  "n < 64 \<Longrightarrow> unbase64 (sextetChar n) = Some n \<and> sextetChar n \<noteq> CHR ''=''"
  using sextets_all by simp

lemma base64Sextets_Cons:
  "unbase64 ch = Some n \<Longrightarrow> ch \<noteq> CHR ''='' \<Longrightarrow> base64Sextets (ch # s) = n # base64Sextets s"
  by (simp add: base64Sextets_def)

lemma base64Sextets_sextetChar:
  "n < 64 \<Longrightarrow> base64Sextets (sextetChar n # s) = n # base64Sextets s"
  using unbase64_sextetChar[of n] base64Sextets_Cons by simp

lemma base64Sextets_pad: "base64Sextets (CHR ''='' # s) = []"
  by (simp add: base64Sextets_def)

lemma sextet_bounds:
  fixes x y z :: nat
  assumes "x < 256" "y < 256" "z < 256"
  shows "x div 4 < 64" "x mod 4 * 16 + y div 16 < 64" "y mod 16 * 4 + z div 64 < 64" "z mod 64 < 64"
    "x mod 4 * 16 < 64" "y mod 16 * 4 < 64"
proof -
  from assms have "x div 4 < 64" "y div 16 < 16" "z div 64 < 4" by simp_all
  moreover have "x mod 4 < 4" "y mod 16 < 16" by simp_all
  ultimately show "x div 4 < 64" "x mod 4 * 16 + y div 16 < 64" "y mod 16 * 4 + z div 64 < 64" "z mod 64 < 64"
    "x mod 4 * 16 < 64" "y mod 16 * 4 < 64" by simp_all
qed

lemma fromBase64_toBase64: "fromBase64 (toBase64 bs) = bs"
proof (induction bs rule: toBase64.induct)
  case 1
  show ?case by (simp add: fromBase64_def base64Sextets_def)
next
  case (2 a)
  have x: "(of_char a :: nat) < 256" by (rule nat_of_char_less_256)
  show ?case
    using sextet_bounds[OF x x x] base64_byte1[where x = "of_char a" and y = 0]
    by (simp add: fromBase64_def Let_def base64Sextets_sextetChar base64Sextets_pad)
next
  case (3 a b)
  have x: "(of_char a :: nat) < 256" and y: "(of_char b :: nat) < 256" by (rule nat_of_char_less_256)+
  show ?case
    using sextet_bounds[OF x y y] base64_byte1[OF y, where x = "of_char a"]
      base64_byte2[where x = "of_char a" and y = "of_char b" and z = 0]
    by (simp add: fromBase64_def Let_def base64Sextets_sextetChar base64Sextets_pad)
next
  case (4 a b c rest)
  have x: "(of_char a :: nat) < 256" and y: "(of_char b :: nat) < 256" and z: "(of_char c :: nat) < 256"
    by (rule nat_of_char_less_256)+
  from 4 have ih: "sextetsToBytes (base64Sextets (toBase64 rest)) = rest"
    by (simp add: fromBase64_def)
  show ?case
    using sextet_bounds[OF x y z] base64_byte1[OF y, where x = "of_char a"]
      base64_byte2[OF y z, where x = "of_char a"] base64_byte3[OF z, where y = "of_char b"] ih
    by (simp add: fromBase64_def Let_def base64Sextets_sextetChar)
qed

subsection \<open>Numerals\<close>

lemma digits_all:
  "\<forall>k\<in>set [0..<10]. digitVal (digitChar k) = k \<and> isDigit (digitChar k) \<and>
      (digitChar k = CHR ''0'' \<longleftrightarrow> k = 0)"
  by code_simp

lemma digitChar_props:
  "k < 10 \<Longrightarrow> digitVal (digitChar k) = k \<and> isDigit (digitChar k) \<and>
      (digitChar k = CHR ''0'' \<longleftrightarrow> k = 0)"
  using digits_all by simp

lemma decimalValue_snoc: "decimalValue (s @ [c]) = 10 * decimalValue s + digitVal c"
  by (simp add: decimalValue_def)

lemma showNat_nonempty: "showNat n \<noteq> []"
  by (subst showNat.simps) simp

lemma showNat_digits: "list_all isDigit (showNat n)"
proof (induction n rule: showNat.induct)
  case (1 n)
  show ?case
  proof (cases "n < 10")
    case True
    then show ?thesis using digitChar_props[of n] by (subst showNat.simps) simp
  next
    case False
    with 1 have "list_all isDigit (showNat (n div 10))" by simp
    moreover have "isDigit (digitChar (n mod 10))" using digitChar_props[of "n mod 10"] by simp
    ultimately show ?thesis using False by (subst showNat.simps) simp
  qed
qed

lemma decimalValue_showNat: "decimalValue (showNat n) = n"
proof (induction n rule: showNat.induct)
  case (1 n)
  show ?case
  proof (cases "n < 10")
    case True
    then show ?thesis using digitChar_props[of n]
      by (subst showNat.simps) (simp add: decimalValue_def)
  next
    case False
    with 1 have "decimalValue (showNat (n div 10)) = n div 10" by simp
    moreover have "digitVal (digitChar (n mod 10)) = n mod 10" using digitChar_props[of "n mod 10"] by simp
    ultimately show ?thesis using False
      by (subst showNat.simps) (simp add: decimalValue_snoc)
  qed
qed

lemma showNat_hd: "hd (showNat n) = CHR ''0'' \<Longrightarrow> n = 0"
proof (induction n rule: showNat.induct)
  case (1 n)
  show ?case
  proof (cases "n < 10")
    case True
    with 1(2) show ?thesis using digitChar_props[of n]
      by (subst (asm) showNat.simps) simp
  next
    case False
    with 1(2) have "hd (showNat (n div 10)) = CHR ''0''"
      using showNat_nonempty[of "n div 10"] by (subst (asm) showNat.simps) simp
    with 1(1) False have "n div 10 = 0" by simp
    with False show ?thesis by simp
  qed
qed

lemma showNat_no_leading_zero: "1 < length (showNat n) \<Longrightarrow> hd (showNat n) \<noteq> CHR ''0''"
proof
  assume l: "1 < length (showNat n)" and "hd (showNat n) = CHR ''0''"
  then have "n = 0" using showNat_hd by blast
  with l show False by (subst (asm) showNat.simps) simp
qed

lemma isDigit_not_minus: "isDigit c \<Longrightarrow> c \<noteq> CHR ''-''"
  by (auto simp add: isDigit_def less_eq_char_def)

lemma takeWhile_showNat:
  "takeWhile isDigit (showNat n) = showNat n" "dropWhile isDigit (showNat n) = []"
  using showNat_digits[of n] by (simp_all add: list_all_iff)

lemma parseNumberText_showNat: "parseNumberText (showNat n) = Some (of_nat n)"
proof -
  have d: "list_all isDigit (showNat n)" by (rule showNat_digits)
  have ne: "showNat n \<noteq> []" by (rule showNat_nonempty)
  then have "isDigit (hd (showNat n))" using d by (cases "showNat n") auto
  then have h: "hd (showNat n) \<noteq> CHR ''-''" by (rule isDigit_not_minus)
  show ?thesis
    using ne h showNat_no_leading_zero[of n] decimalValue_showNat[of n]
      d[unfolded list_all_iff]
    by (simp add: parseNumberText_def Let_def takeWhile_showNat decimalValue_def[of "[]"])
qed

lemma parseNumberText_showInt: "parseNumberText (showInt p) = Some (of_int p)"
proof (cases "p < 0")
  case False
  then show ?thesis using parseNumberText_showNat[of "nat p"] by (simp add: showInt_def)
next
  case True
  have d: "list_all isDigit (showNat (nat (- p)))" by (rule showNat_digits)
  have ne: "showNat (nat (- p)) \<noteq> []" by (rule showNat_nonempty)
  from True show ?thesis
    using ne showNat_no_leading_zero[of "nat (- p)"] decimalValue_showNat[of "nat (- p)"]
      d[unfolded list_all_iff]
    by (simp add: showInt_def parseNumberText_def Let_def takeWhile_showNat
        decimalValue_def[of "[]"])
qed

subsection \<open>The lexer on the text of a cursor\<close>

lemma isDigit_plain:
  "isDigit c \<Longrightarrow> \<not> jsonWhiteSpace c \<and> c \<noteq> CHR ''{'' \<and> c \<noteq> CHR ''}'' \<and> c \<noteq> CHR ''['' \<and>
     c \<noteq> CHR '']'' \<and> c \<noteq> CHR '':'' \<and> c \<noteq> CHR '','' \<and> c \<noteq> dquote \<and> isNumChar c"
  by (auto simp add: isDigit_def less_eq_char_def jsonWhiteSpace_def dquote_def isNumChar_def)

lemma showInt_shape:
  "\<exists>d ds. showInt p = d # ds \<and> (d = CHR ''-'' \<or> isDigit d) \<and> list_all isNumChar ds"
proof (cases "p < 0")
  case True
  have "list_all isNumChar (showNat (nat (- p)))"
    using showNat_digits[of "nat (- p)"] by (auto simp add: list_all_iff isNumChar_def)
  with True show ?thesis by (simp add: showInt_def)
next
  case False
  obtain d ds where s: "showNat (nat p) = d # ds"
    using showNat_nonempty[of "nat p"] by (cases "showNat (nat p)") auto
  with showNat_digits[of "nat p"] have "isDigit d" "list_all isNumChar ds"
    by (auto simp add: list_all_iff isNumChar_def)
  with False s show ?thesis by (simp add: showInt_def)
qed

lemma lex_number_start:
  assumes "d = CHR ''-'' \<or> isDigit d"
  shows "lex Top (d # cs) =
          (case parseNumberText (d # takeWhile isNumChar cs) of None \<Rightarrow> None
           | Some n \<Rightarrow> map_option (Cons (TNumber n)) (lex Top (dropWhile isNumChar cs)))"
proof -
  have plain: "\<not> jsonWhiteSpace d \<and> d \<noteq> CHR ''{'' \<and> d \<noteq> CHR ''}'' \<and> d \<noteq> CHR ''['' \<and>
     d \<noteq> CHR '']'' \<and> d \<noteq> CHR '':'' \<and> d \<noteq> CHR '','' \<and> d \<noteq> dquote"
  proof (cases "isDigit d")
    case True
    from isDigit_plain[OF this] show ?thesis
      by blast
  next
    case False
    with assms have "d = CHR ''-''"
      by blast
    then show ?thesis
      by (simp add: jsonWhiteSpace_def dquote_def)
  qed
  show ?thesis
    by (subst lex.simps) (simp only: plain assms if_False if_True)
qed

lemma lex_number:
  assumes "\<not> isNumChar c"
  shows "lex Top (showInt p @ c # rest) = map_option (Cons (TNumber (of_int p))) (lex Top (c # rest))"
proof -
  from showInt_shape obtain d ds where
    s: "showInt p = d # ds" and d: "d = CHR ''-'' \<or> isDigit d" and ds: "list_all isNumChar ds"
    by blast
  from ds assms have t: "takeWhile isNumChar (ds @ c # rest) = ds"
    "dropWhile isNumChar (ds @ c # rest) = c # rest"
    by (simp_all add: list_all_iff)
  have "lex Top (showInt p @ c # rest) = lex Top (d # (ds @ c # rest))"
    using s by simp
  also have "\<dots> = (case parseNumberText (d # ds) of None \<Rightarrow> None
           | Some n \<Rightarrow> map_option (Cons (TNumber n)) (lex Top (c # rest)))"
    by (simp only: lex_number_start[OF d] t)
  also have "\<dots> = map_option (Cons (TNumber (of_int p))) (lex Top (c # rest))"
    using s parseNumberText_showInt[of p] by (simp del: lex.simps)
  finally show ?thesis .
qed

lemma hex_all:
  "\<forall>n\<in>set [0..<32]. hex4 (CHR ''0'') (CHR ''0'') (hexDigit (n div 16)) (hexDigit (n mod 16)) = Some n"
  by code_simp

lemma hex4_control:
  "n < 32 \<Longrightarrow> hex4 (CHR ''0'') (CHR ''0'') (hexDigit (n div 16)) (hexDigit (n mod 16)) = Some n"
  using hex_all by simp

lemma lex_simple_escape:
  assumes "unescape e = Some ch" and "e \<noteq> CHR ''u''"
  shows "lex (InString acc) (backslash # e # s) = lex (InString (ch # acc)) s"
  by (subst lex.simps) (simp add: assms backslash_def dquote_def)

lemma lex_control_escape:
  assumes "n < 32"
  shows "lex (InString acc)
           (backslash # CHR ''u'' # CHR ''0'' # CHR ''0'' # hexDigit (n div 16) #
            hexDigit (n mod 16) # s) =
         lex (InString (char_of n # acc)) s"
proof -
  from assms have u: "utf8 n = [char_of n]"
    by (simp add: utf8_def)
  show ?thesis
    by (subst lex.simps) (simp add: hex4_control[OF assms] u backslash_def dquote_def)
qed

lemma lex_plain_char:
  assumes "c \<noteq> dquote" and "c \<noteq> backslash" and "\<not> of_char c < (32::nat)"
  shows "lex (InString acc) (c # s) = lex (InString (c # acc)) s"
  by (subst lex.simps) (simp add: assms)

lemma escapeChar_simple:
  "escapeChar dquote = [backslash, dquote]"
  "escapeChar backslash = [backslash, backslash]"
  "escapeChar (CHR 0x08) = [backslash, CHR ''b'']"
  "escapeChar (CHR 0x0C) = [backslash, CHR ''f'']"
  "escapeChar (CHR 0x0A) = [backslash, CHR ''n'']"
  "escapeChar (CHR 0x0D) = [backslash, CHR ''r'']"
  "escapeChar (CHR 0x09) = [backslash, CHR ''t'']"
  by (simp_all add: escapeChar_def dquote_def backslash_def)

lemma lex_escapes:
  "lex (InString acc) (backslash # dquote # s) = lex (InString (dquote # acc)) s"
  "lex (InString acc) (backslash # backslash # s) = lex (InString (backslash # acc)) s"
  "lex (InString acc) (backslash # CHR ''b'' # s) = lex (InString (CHR 0x08 # acc)) s"
  "lex (InString acc) (backslash # CHR ''f'' # s) = lex (InString (CHR 0x0C # acc)) s"
  "lex (InString acc) (backslash # CHR ''n'' # s) = lex (InString (CHR 0x0A # acc)) s"
  "lex (InString acc) (backslash # CHR ''r'' # s) = lex (InString (CHR 0x0D # acc)) s"
  "lex (InString acc) (backslash # CHR ''t'' # s) = lex (InString (CHR 0x09 # acc)) s"
  by (rule lex_simple_escape; simp add: unescape_def dquote_def backslash_def)+

lemma lex_escapeChar: "lex (InString acc) (escapeChar c @ s) = lex (InString (c # acc)) s"
proof -
  consider (simple) "c = dquote \<or> c = backslash \<or> c = CHR 0x08 \<or> c = CHR 0x0C \<or>
      c = CHR 0x0A \<or> c = CHR 0x0D \<or> c = CHR 0x09"
    | (control) "c \<noteq> dquote" "c \<noteq> backslash" "c \<noteq> CHR 0x08" "c \<noteq> CHR 0x0C"
      "c \<noteq> CHR 0x0A" "c \<noteq> CHR 0x0D" "c \<noteq> CHR 0x09" "of_char c < (32::nat)"
    | (plain) "c \<noteq> dquote" "c \<noteq> backslash" "c \<noteq> CHR 0x08" "c \<noteq> CHR 0x0C"
      "c \<noteq> CHR 0x0A" "c \<noteq> CHR 0x0D" "c \<noteq> CHR 0x09" "\<not> of_char c < (32::nat)"
    by blast
  then show ?thesis
  proof cases
    case simple
    then show ?thesis
      by (elim disjE) (simp_all only: escapeChar_simple lex_escapes append_Cons append_Nil)
  next
    case control
    then have "escapeChar c = [backslash, CHR ''u'', CHR ''0'', CHR ''0'',
         hexDigit (of_char c div 16), hexDigit (of_char c mod 16)]"
      by (simp add: escapeChar_def)
    with lex_control_escape[OF control(8), of acc s] show ?thesis
      by simp
  next
    case plain
    then have "escapeChar c = [c]"
      by (simp add: escapeChar_def)
    with lex_plain_char[OF plain(1,2,8), of acc s] show ?thesis
      by simp
  qed
qed

lemma lex_string_body:
  "lex (InString acc) (concat (map escapeChar i) @ dquote # rest) =
     map_option (Cons (TString (rev acc @ i))) (lex Top rest)"
proof (induction i arbitrary: acc)
  case Nil
  show ?case by simp
next
  case (Cons c i)
  have "lex (InString acc) (concat (map escapeChar (c # i)) @ dquote # rest) =
        lex (InString acc) (escapeChar c @ (concat (map escapeChar i) @ dquote # rest))"
    by simp
  also have "\<dots> = lex (InString (c # acc)) (concat (map escapeChar i) @ dquote # rest)"
    by (rule lex_escapeChar)
  also have "\<dots> = map_option (Cons (TString (rev (c # acc) @ i))) (lex Top rest)"
    by (rule Cons.IH)
  finally show ?case by simp
qed

lemma lex_quoteJSON:
  "lex Top (quoteJSON i @ rest) = map_option (Cons (TString i)) (lex Top rest)"
  using lex_string_body[of "[]" i rest]
  by (simp add: quoteJSON_def jsonWhiteSpace_def dquote_def isDigit_def less_eq_char_def)

lemma lex_stringifyCursor:
  "lex Top (stringifyCursor p i) =
     Some [TLBrace, TString ''pAt'', TColon, TNumber (of_int p), TComma, TString ''id'', TColon,
           TString i, TRBrace]"
proof -
  have n: "\<not> isNumChar (CHR '','')" by (simp add: isNumChar_def isDigit_def less_eq_char_def)
  have tail: "lex Top (CHR '','' # dquote # ''id'' @ [dquote, CHR '':''] @ quoteJSON i @ [CHR ''}'']) =
     Some [TComma, TString ''id'', TColon, TString i, TRBrace]"
    using lex_quoteJSON[of i "[CHR ''}'']"]
    by (simp add: jsonWhiteSpace_def dquote_def backslash_def isDigit_def less_eq_char_def startsWith_def)
  have "lex Top (showInt p @ CHR '','' # dquote # ''id'' @ [dquote, CHR '':''] @ quoteJSON i @ [CHR ''}'']) =
     Some [TNumber (of_int p), TComma, TString ''id'', TColon, TString i, TRBrace]"
    using lex_number[OF n, of p] tail by simp
  then show ?thesis
    by (simp add: stringifyCursor_def jsonWhiteSpace_def dquote_def backslash_def)
qed

lemma JSON_parse_stringifyCursor:
  "JSON_parse (stringifyCursor p i) = Some (JObj [(''pAt'', JNum (Num (of_int p))), (''id'', JStr i)])"
  by (simp add: JSON_parse_def lex_stringifyCursor)

section \<open>The pagination endpoint: properties\<close>

lemma toBase64_nonempty: "bs \<noteq> [] \<Longrightarrow> toBase64 bs \<noteq> []"
  by (induction bs rule: toBase64.induct) (simp_all add: Let_def)

lemma encodeCursor_nonempty: "encodeCursor p i \<noteq> []"
proof -
  have "stringifyCursor p i \<noteq> []"
    by (simp add: stringifyCursor_def)
  from toBase64_nonempty[OF this] show ?thesis
    by (simp add: encodeCursor_def)
qed

lemma decodeCursor_encodeCursor:
  "decodeCursor (encodeCursor p i) = JObj [(''pAt'', JNum (Num (of_int p))), (''id'', JStr i)]"
  by (simp add: decodeCursor_def encodeCursor_def fromBase64_toBase64 JSON_parse_stringifyCursor)

lemma truncateRat_of_int: "truncateRat (of_int p) = p"
  by (simp add: truncateRat_def)

lemma cursorOf_encodeCursor:
  assumes "\<bar>p\<bar> \<le> 8640000000000000"
  shows "cursorOf (Some (encodeCursor p i)) = Keyset p i"
proof -
  from assms have "\<bar>of_int p :: rat\<bar> \<le> 8640000000000000"
    by (metis of_int_abs of_int_le_iff of_int_numeral)
  then show ?thesis
    by (simp add: cursorOf_def encodeCursor_nonempty decodeCursor_encodeCursor truncateRat_of_int)
qed

lemma set_orderDesc: "set (orderDesc rows) = set rows"
  by (simp add: orderDesc_def)

lemma executeQuery_Keyset:
  assumes "executeQuery db identityId limit (Keyset t c) pod = Inr results" and "r \<in> set results"
  shows "keysetFilter t c r"
  using assms
  by (auto simp add: executeQuery_def Let_def set_orderDesc dest!: in_set_takeD
      split: option.splits if_splits)

lemma executeQuery_length:
  assumes "cu \<noteq> NoCursor \<longrightarrow> (\<exists>t c. cu = Keyset t c)"
  shows "\<exists>results. executeQuery db identityId limit cu pod = Inr results \<and> length results \<le> limit"
  using assms by (cases cu) (auto simp add: executeQuery_def Let_def)

lemma UnlistenedEpisodes_page:
  assumes "UnlistenedEpisodes db ctx pod first after = Inr resp"
  shows "int (length (episodes resp)) \<le> pageSizeOf first"
proof -
  have pos: "0 \<le> pageSizeOf first" by (simp add: pageSizeOf_def)
  show ?thesis
  proof (cases "isAuthenticated ctx \<and> identity ctx \<noteq> None")
    case False
    with assms pos show ?thesis
      by (auto simp add: UnlistenedEpisodes_def split: bool.splits option.splits)
  next
    case True
    then obtain identityId where i: "isAuthenticated ctx" "identity ctx = Some identityId" by auto
    with assms obtain results where
      r: "executeQuery db identityId (nat (pageSizeOf first) + 1) (cursorOf after) pod = Inr results"
      and e: "episodes resp = (if length results > nat (pageSizeOf first) then take (nat (pageSizeOf first)) results else results)"
      by (auto simp add: UnlistenedEpisodes_def Let_def split: sum.splits)
    from e have "length (episodes resp) \<le> nat (pageSizeOf first)" by (auto split: if_splits)
    with pos show ?thesis by linarith
  qed
qed

lemma UnlistenedEpisodes_rows:
  assumes "UnlistenedEpisodes db ctx pod first after = Inr resp" and "r \<in> set (episodes resp)"
  shows "\<exists>identityId limit results. executeQuery db identityId limit (cursorOf after) pod = Inr results \<and> r \<in> set results"
proof (cases "isAuthenticated ctx \<and> identity ctx \<noteq> None")
  case False
  with assms show ?thesis
    by (auto simp add: UnlistenedEpisodes_def split: bool.splits option.splits)
next
  case True
  then obtain identityId where i: "isAuthenticated ctx" "identity ctx = Some identityId" by auto
  with assms(1) obtain results where
    r: "executeQuery db identityId (nat (pageSizeOf first) + 1) (cursorOf after) pod = Inr results"
    and e: "episodes resp = (if length results > nat (pageSizeOf first) then take (nat (pageSizeOf first)) results else results)"
    by (auto simp add: UnlistenedEpisodes_def Let_def split: sum.splits)
  from e assms(2) have "r \<in> set results" by (auto split: if_splits dest: in_set_takeD)
  with r show ?thesis by blast
qed

text \<open>
  The page size the handler computes for each \<open>first\<close> other than 0: it lies between 1
  and 100, it is 20 when \<open>first\<close> is absent, 1 when \<open>first\<close> is negative, 100 when \<open>first\<close>
  exceeds 100 and \<open>first\<close> itself otherwise.  A page holds at most that many episodes.
\<close>

theorem pageSize_clamped:
  "1 \<le> pageSizeOf first \<and> pageSizeOf first \<le> 100 \<and>
   pageSizeOf None = 20 \<and>
   (n < 0 \<longrightarrow> pageSizeOf (Some n) = 1) \<and>
   (100 < n \<longrightarrow> pageSizeOf (Some n) = 100) \<and>
   (1 \<le> n \<and> n \<le> 100 \<longrightarrow> pageSizeOf (Some n) = n) \<and>
   (UnlistenedEpisodes db ctx pod first after = Inr resp \<longrightarrow>
      int (length (episodes resp)) \<le> pageSizeOf first)"
  using UnlistenedEpisodes_page[of db ctx pod first after resp]
  by (auto simp add: pageSizeOf_def split: option.splits)

text \<open>
  Claim C7.  Decoding an encoded cursor gives back the pair: \<open>pAt\<close> is the time and \<open>id\<close> is
  the identifier.  Fed back as \<open>after\<close> (for a time in the range of \<open>Date\<close>), the cursor
  makes the query apply the keyset condition with that very pair, so every returned row is
  strictly before the pair: neither the row of the cursor nor a row that is later or equal
  in the order of \<open>publishedAt\<close>, then \<open>id\<close>, comes back.
\<close>

theorem cursor_roundtrip_keyset:
  "decodeCursor (encodeCursor p i) = JObj [(''pAt'', JNum (Num (of_int p))), (''id'', JStr i)] \<and>
   getProp (decodeCursor (encodeCursor p i)) ''pAt'' = JNum (Num (of_int p)) \<and>
   getProp (decodeCursor (encodeCursor p i)) ''id'' = JStr i \<and>
   (\<bar>p\<bar> \<le> 8640000000000000 \<longrightarrow> cursorOf (Some (encodeCursor p i)) = Keyset p i) \<and>
   (\<bar>p\<bar> \<le> 8640000000000000 \<and>
    UnlistenedEpisodes db ctx pod first (Some (encodeCursor p i)) = Inr resp \<longrightarrow>
      (\<forall>r\<in>set (episodes resp).
         (publishedAt r < p \<or> (publishedAt r = p \<and> episodeId r < i)) \<and>
         \<not> (p < publishedAt r \<or> (p = publishedAt r \<and> i \<le> episodeId r))))"
proof (intro conjI impI ballI)
  show "decodeCursor (encodeCursor p i) = JObj [(''pAt'', JNum (Num (of_int p))), (''id'', JStr i)]"
    by (rule decodeCursor_encodeCursor)
  show "getProp (decodeCursor (encodeCursor p i)) ''pAt'' = JNum (Num (of_int p))"
    by (simp add: decodeCursor_encodeCursor)
  show "getProp (decodeCursor (encodeCursor p i)) ''id'' = JStr i"
    by (simp add: decodeCursor_encodeCursor)
next
  assume "\<bar>p\<bar> \<le> 8640000000000000"
  then show "cursorOf (Some (encodeCursor p i)) = Keyset p i" by (rule cursorOf_encodeCursor)
next
  fix r
  assume a: "\<bar>p\<bar> \<le> 8640000000000000 \<and>
    UnlistenedEpisodes db ctx pod first (Some (encodeCursor p i)) = Inr resp"
    and r: "r \<in> set (episodes resp)"
  from a have c: "cursorOf (Some (encodeCursor p i)) = Keyset p i" by (simp add: cursorOf_encodeCursor)
  from UnlistenedEpisodes_rows[OF conjunct2[OF a] r] c obtain identityId limit results where
    "executeQuery db identityId limit (Keyset p i) pod = Inr results" "r \<in> set results" by auto
  then have k: "keysetFilter p i r" by (rule executeQuery_Keyset)
  then show "publishedAt r < p \<or> (publishedAt r = p \<and> episodeId r < i)" by (simp add: keysetFilter_def)
  from k show "\<not> (p < publishedAt r \<or> (p = publishedAt r \<and> i \<le> episodeId r))"
    by (auto simp add: keysetFilter_def)
qed

text \<open>
  Claim C10.  When \<open>after\<close> does not decode to JSON, \<open>decodeCursor\<close> returns \<open>null\<close>, the
  query gets no cursor condition and the handler does exactly what it does without
  \<open>after\<close>.  For an authenticated caller that is the first page of the listing: the
  query without cursor condition succeeds and the response holds its first rows, so no
  error is raised.  The query is never what fails; the only failure left is the
  \<open>PermissionError\<close> of a caller who is not authenticated, raised before \<open>after\<close> is read.
\<close>

theorem malformed_cursor_ignored:
  "JSON_parse (fromBase64 a) = None \<longrightarrow>
     decodeCursor a = JNull \<and> cursorOf (Some a) = NoCursor \<and>
     UnlistenedEpisodes db ctx pod first (Some a) = UnlistenedEpisodes db ctx pod first None \<and>
     (isAuthenticated ctx \<and> identity ctx = Some identityId \<longrightarrow>
        (\<exists>results resp.
           executeQuery db identityId (nat (pageSizeOf first) + 1) NoCursor pod = Inr results \<and>
           UnlistenedEpisodes db ctx pod first (Some a) = Inr resp \<and>
           episodes resp = take (nat (pageSizeOf first)) results)) \<and>
     (\<forall>e. UnlistenedEpisodes db ctx pod first (Some a) \<noteq> Inl (QueryError e)) \<and>
     (UnlistenedEpisodes db ctx pod first (Some a) = Inl PermissionError \<longleftrightarrow>
        \<not> (isAuthenticated ctx \<and> identity ctx \<noteq> None))"
proof (intro impI)
  assume n: "JSON_parse (fromBase64 a) = None"
  then have d: "decodeCursor a = JNull" by (simp add: decodeCursor_def)
  then have c: "cursorOf (Some a) = NoCursor" by (simp add: cursorOf_def)
  have e: "cursorOf None = NoCursor"
    by (simp add: cursorOf_def)
  have s: "UnlistenedEpisodes db ctx pod first (Some a) = UnlistenedEpisodes db ctx pod first None"
    unfolding UnlistenedEpisodes_def c e by (rule refl)
  have q: "\<exists>results. executeQuery db i limit NoCursor pod = Inr results" for i limit
    by (simp add: executeQuery_def Let_def)
  have p: "\<exists>results resp.
           executeQuery db identityId (nat (pageSizeOf first) + 1) NoCursor pod = Inr results \<and>
           UnlistenedEpisodes db ctx pod first (Some a) = Inr resp \<and>
           episodes resp = take (nat (pageSizeOf first)) results"
    if "isAuthenticated ctx \<and> identity ctx = Some identityId"
  proof -
    from q obtain results where
      r: "executeQuery db identityId (nat (pageSizeOf first) + 1) NoCursor pod = Inr results"
      by blast
    from that r c show ?thesis
      by (simp add: UnlistenedEpisodes_def Let_def)
  qed
  have f: "UnlistenedEpisodes db ctx pod first (Some a) \<noteq> Inl (QueryError x)" for x
  proof (cases "isAuthenticated ctx \<and> identity ctx \<noteq> None")
    case True
    then obtain i where i: "isAuthenticated ctx" "identity ctx = Some i" by auto
    from q obtain results where
      "executeQuery db i (nat (pageSizeOf first) + 1) NoCursor pod = Inr results"
      by blast
    with i c show ?thesis
      by (simp add: UnlistenedEpisodes_def Let_def)
  next
    case False
    then show ?thesis
      by (auto simp add: UnlistenedEpisodes_def split: bool.splits option.splits)
  qed
  have g: "UnlistenedEpisodes db ctx pod first (Some a) = Inl PermissionError \<longleftrightarrow>
        \<not> (isAuthenticated ctx \<and> identity ctx \<noteq> None)"
  proof (cases "isAuthenticated ctx \<and> identity ctx \<noteq> None")
    case True
    then obtain i where i: "isAuthenticated ctx" "identity ctx = Some i" by auto
    from q obtain results where
      "executeQuery db i (nat (pageSizeOf first) + 1) NoCursor pod = Inr results"
      by blast
    with i c show ?thesis
      by (simp add: UnlistenedEpisodes_def Let_def)
  next
    case False
    then show ?thesis
      by (auto simp add: UnlistenedEpisodes_def split: bool.splits option.splits)
  qed
  from d c s p f g
  show "decodeCursor a = JNull \<and> cursorOf (Some a) = NoCursor \<and>
     UnlistenedEpisodes db ctx pod first (Some a) = UnlistenedEpisodes db ctx pod first None \<and>
     (isAuthenticated ctx \<and> identity ctx = Some identityId \<longrightarrow>
        (\<exists>results resp.
           executeQuery db identityId (nat (pageSizeOf first) + 1) NoCursor pod = Inr results \<and>
           UnlistenedEpisodes db ctx pod first (Some a) = Inr resp \<and>
           episodes resp = take (nat (pageSizeOf first)) results)) \<and>
     (\<forall>e. UnlistenedEpisodes db ctx pod first (Some a) \<noteq> Inl (QueryError e)) \<and>
     (UnlistenedEpisodes db ctx pod first (Some a) = Inl PermissionError \<longleftrightarrow>
        \<not> (isAuthenticated ctx \<and> identity ctx \<noteq> None))"
    by blast
qed

text \<open>
  Claim C9.  The page size is to lie between 1 and 100 and to be 1 when \<open>first\<close> is below
  1.  The code misses this at \<open>first = 0\<close>: in \<open>Math.min(Math.max(first || 20, 1), 100)\<close> the
  operator \<open>||\<close> takes 0 as absent, so the page size is 20 where \<open>first = -1\<close> gives 1, against
  the comment of that line, which clamps the page size between 1 and 100, and against
  \<open>Math.max(..., 1)\<close>, which is there to lift the values below 1.  A request for 0 episodes
  gets all three episodes of the sample database.
\<close>

theorem pageSize_zero_is_default:
  "pageSizeOf (Some 0) = 20 \<and> pageSizeOf (Some (- 1)) = 1 \<and>
   UnlistenedEpisodes sampleDb ann None (Some 0) None =
     Inr \<lparr> episodes = [sampleRow ''e3'' 3000, sampleRow ''e2'' 2000, sampleRow ''e1'' 1000],
           hasNextPage = False, nextCursor = None \<rparr>"
proof -
  have q: "executeQuery sampleDb ''ann'' 21 NoCursor None =
             Inr [sampleRow ''e3'' 3000, sampleRow ''e2'' 2000, sampleRow ''e1'' 1000]"
    by code_simp
  have s: "pageSizeOf (Some 0) = 20" "pageSizeOf (Some (- 1)) = 1"
    by (simp_all add: pageSizeOf_def)
  have "UnlistenedEpisodes sampleDb ann None (Some 0) None =
     Inr \<lparr> episodes = [sampleRow ''e3'' 3000, sampleRow ''e2'' 2000, sampleRow ''e1'' 1000],
           hasNextPage = False, nextCursor = None \<rparr>"
    using q s by (simp add: UnlistenedEpisodes_def ann_def cursorOf_def Let_def)
  with s show ?thesis
    by simp
qed

text \<open>
  The sample database: a page of two of its three episodes.
\<close>

theorem pageSize_clamped_witness:
  "pageSizeOf (Some (- 3)) = 1 \<and> pageSizeOf (Some 250) = 100 \<and> pageSizeOf (Some 2) = 2 \<and>
   UnlistenedEpisodes sampleDb ann None (Some 2) None =
     Inr \<lparr> episodes = [sampleRow ''e3'' 3000, sampleRow ''e2'' 2000],
           hasNextPage = True, nextCursor = Some (encodeCursor 2000 ''e2'') \<rparr> \<and>
   int (length [sampleRow ''e3'' 3000, sampleRow ''e2'' 2000]) \<le> pageSizeOf (Some 2)"
proof -
  let ?resp = "\<lparr> episodes = [sampleRow ''e3'' 3000, sampleRow ''e2'' 2000],
                   hasNextPage = True, nextCursor = Some (encodeCursor 2000 ''e2'') \<rparr>"
  have q: "executeQuery sampleDb ''ann'' 3 NoCursor None =
             Inr [sampleRow ''e3'' 3000, sampleRow ''e2'' 2000, sampleRow ''e1'' 1000]"
    by code_simp
  have s: "nat (pageSizeOf (Some 2)) = 2"
    by (simp add: pageSizeOf_def)
  have l: "publishedAt (sampleRow ''e2'' 2000) = 2000" "episodeId (sampleRow ''e2'' 2000) = ''e2''"
    by code_simp+
  have h: "UnlistenedEpisodes sampleDb ann None (Some 2) None = Inr ?resp"
    using q s l by (simp add: UnlistenedEpisodes_def ann_def cursorOf_def Let_def)
  have 1: "(- 3::int) < 0" and 2: "(100::int) < 250" and 3: "(1::int) \<le> 2 \<and> (2::int) \<le> 100"
    by simp_all
  from pageSize_clamped[where n = "- 3"] 1 have a: "pageSizeOf (Some (- 3)) = 1"
    by blast
  from pageSize_clamped[where n = 250] 2 have b: "pageSizeOf (Some 250) = 100"
    by blast
  from pageSize_clamped[where n = 2] 3 have c: "pageSizeOf (Some 2) = 2"
    by blast
  from pageSize_clamped[where db = sampleDb and ctx = ann and pod = None and first = "Some 2" and after = None
      and resp = ?resp] h
  have d: "int (length [sampleRow ''e3'' 3000, sampleRow ''e2'' 2000]) \<le> pageSizeOf (Some 2)"
    by simp
  from a b c d h show ?thesis
    by blast
qed

theorem cursor_roundtrip_keyset_witness:
  "decodeCursor (encodeCursor 2000 ''e2'') =
     JObj [(''pAt'', JNum (Num 2000)), (''id'', JStr ''e2'')] \<and>
   UnlistenedEpisodes sampleDb ann None (Some 2) (Some (encodeCursor 2000 ''e2'')) =
     Inr \<lparr> episodes = [sampleRow ''e1'' 1000], hasNextPage = False,
           nextCursor = None \<rparr> \<and>
   (publishedAt (sampleRow ''e1'' 1000) < 2000 \<or>
    (publishedAt (sampleRow ''e1'' 1000) = 2000 \<and> episodeId (sampleRow ''e1'' 1000) < ''e2''))"
proof -
  let ?resp = "\<lparr> episodes = [sampleRow ''e1'' 1000], hasNextPage = False, nextCursor = None \<rparr>"
  have r: "\<bar>2000::int\<bar> \<le> 8640000000000000"
    by simp
  from cursor_roundtrip_keyset[where p = 2000 and i = "''e2''"] r
  have d: "decodeCursor (encodeCursor 2000 ''e2'') =
             JObj [(''pAt'', JNum (Num 2000)), (''id'', JStr ''e2'')]"
    and c: "cursorOf (Some (encodeCursor 2000 ''e2'')) = Keyset 2000 ''e2''"
    by simp_all
  have q: "executeQuery sampleDb ''ann'' 3 (Keyset 2000 ''e2'') None = Inr [sampleRow ''e1'' 1000]"
    by code_simp
  have s: "nat (pageSizeOf (Some 2)) = 2"
    by (simp add: pageSizeOf_def)
  have h: "UnlistenedEpisodes sampleDb ann None (Some 2) (Some (encodeCursor 2000 ''e2'')) =
             Inr ?resp"
    using q s c by (simp add: UnlistenedEpisodes_def ann_def Let_def)
  from cursor_roundtrip_keyset[where p = 2000 and i = "''e2''" and db = sampleDb and ctx = ann and pod = None
      and first = "Some 2" and resp = ?resp] r h
  have "\<forall>r\<in>set (episodes ?resp).
         (publishedAt r < 2000 \<or> (publishedAt r = 2000 \<and> episodeId r < ''e2'')) \<and>
         \<not> (2000 < publishedAt r \<or> (2000 = publishedAt r \<and> ''e2'' \<le> episodeId r))"
    by blast
  then have "publishedAt (sampleRow ''e1'' 1000) < 2000 \<or>
    (publishedAt (sampleRow ''e1'' 1000) = 2000 \<and> episodeId (sampleRow ''e1'' 1000) < ''e2'')"
    by simp
  with d h show ?thesis
    by blast
qed

theorem malformed_cursor_ignored_witness:
  "decodeCursor ''not-a-cursor'' = JNull \<and>
   UnlistenedEpisodes sampleDb ann None (Some 2) (Some ''not-a-cursor'') =
     UnlistenedEpisodes sampleDb ann None (Some 2) None \<and>
   UnlistenedEpisodes sampleDb ann None (Some 2) (Some ''not-a-cursor'') =
     Inr \<lparr> episodes = [sampleRow ''e3'' 3000, sampleRow ''e2'' 2000],
           hasNextPage = True, nextCursor = Some (encodeCursor 2000 ''e2'') \<rparr> \<and>
   UnlistenedEpisodes sampleDb ann None (Some 2) (Some ''not-a-cursor'') \<noteq> Inl PermissionError"
proof -
  let ?resp = "\<lparr> episodes = [sampleRow ''e3'' 3000, sampleRow ''e2'' 2000],
                   hasNextPage = True, nextCursor = Some (encodeCursor 2000 ''e2'') \<rparr>"
  have n: "JSON_parse (fromBase64 ''not-a-cursor'') = None"
    by code_simp
  have u: "isAuthenticated ann \<and> identity ann = Some ''ann''" "identity ann \<noteq> None"
    by (simp_all add: ann_def)
  have q: "executeQuery sampleDb ''ann'' 3 NoCursor None =
             Inr [sampleRow ''e3'' 3000, sampleRow ''e2'' 2000, sampleRow ''e1'' 1000]"
    by code_simp
  have s: "nat (pageSizeOf (Some 2)) = 2"
    by (simp add: pageSizeOf_def)
  have l: "publishedAt (sampleRow ''e2'' 2000) = 2000" "episodeId (sampleRow ''e2'' 2000) = ''e2''"
    by code_simp+
  have h: "UnlistenedEpisodes sampleDb ann None (Some 2) None = Inr ?resp"
    using q s l by (simp add: UnlistenedEpisodes_def ann_def cursorOf_def Let_def)
  note t = malformed_cursor_ignored[where a = "''not-a-cursor''" and db = sampleDb and ctx = ann
      and pod = None and first = "Some 2" and identityId = "''ann''"]
  from t n have d: "decodeCursor ''not-a-cursor'' = JNull"
    and e: "UnlistenedEpisodes sampleDb ann None (Some 2) (Some ''not-a-cursor'') =
              UnlistenedEpisodes sampleDb ann None (Some 2) None"
    by blast+
  from t n u have p:
    "UnlistenedEpisodes sampleDb ann None (Some 2) (Some ''not-a-cursor'') \<noteq> Inl PermissionError"
    by blast
  from d e h p show ?thesis
    by simp
qed

end
